theory Spec2Isabelle
  imports Main "HOL-Library.AList"
begin

section \<open>Python values and dictionaries\<close>

text \<open>
  The values that \<^verbatim>\<open>json.loads\<close> and \<^verbatim>\<open>Row.asDict()\<close> hand to the utilities:
  \<^verbatim>\<open>None\<close>, booleans, integers, strings, lists and string-keyed dictionaries.
  (Floating-point numbers are left out: no function below inspects a number.)
  A dictionary is an association list in insertion order; lookup is \<open>map_of\<close>,
  \<^verbatim>\<open>d[k] = v\<close> is \<open>AList.update k v d\<close> (in place when the key exists, appended
  otherwise) and \<^verbatim>\<open>del d[k]\<close> is \<open>AList.delete k d\<close>.
\<close>

datatype pyval =
    PyNone
  | PyBool bool
  | PyInt int
  | PyStr string
  | PyList "pyval list"
  | PyDict "(string \<times> pyval) list"

type_synonym pydict = "(string \<times> pyval) list"

definition dict_keys :: "pydict \<Rightarrow> string list" where
  "dict_keys d = map fst d"

text \<open>The exceptions the modelled functions raise, each with what its message interpolates.\<close>

datatype error =
    Exception string
  | MandatoryMissingKeys "string set" string
  | UnsupportedSinkFormat pyval
  | TypeError string
  | AttributeError string
  | KeyError string
  | JSONDecodeError string
  | SecretNotFound pyval pyval
  | ConfKeyNotSet string
  | TableNotFound string
  | ParseException string
  | UnboundLocalError string
  | SystemExit

section \<open>DataflowSpecUtils.populate_additional_df_cols\<close>

text \<open>
  \<^verbatim>\<open>
  def populate_additional_df_cols(onboarding_row_dict, additional_columns):
      for column in additional_columns:
          if column not in onboarding_row_dict.keys():
              onboarding_row_dict[column] = None
      return onboarding_row_dict
  \<close>
\<close>

fun populate_additional_df_cols :: "pydict \<Rightarrow> string list \<Rightarrow> pydict" where
  "populate_additional_df_cols onboarding_row_dict [] = onboarding_row_dict"
| "populate_additional_df_cols onboarding_row_dict (column # additional_columns) =
     populate_additional_df_cols
       (if column \<notin> set (dict_keys onboarding_row_dict)
        then AList.update column PyNone onboarding_row_dict
        else onboarding_row_dict)
       additional_columns"

section \<open>DataflowSpecUtils.get_partition_cols\<close>

text \<open>
  Strings are sequences of code points below 256. \<^verbatim>\<open>str.strip()\<close> removes leading and
  trailing characters for which \<^verbatim>\<open>str.isspace()\<close> holds: in that range the code points
  9-13, 28-32, 133 and 160.
\<close>

definition isspace :: "char \<Rightarrow> bool" where
  "isspace c = ((of_char c :: nat) \<in> {9, 10, 11, 12, 13, 28, 29, 30, 31, 32, 133, 160})"

definition strip :: "string \<Rightarrow> string" where
  "strip s = rev (dropWhile isspace (rev (dropWhile isspace s)))"

text \<open>
  \<^verbatim>\<open>
  def get_partition_cols(partition_columns):
      partition_cols = None
      if partition_columns:
          if len(partition_columns) == 1:
              if partition_columns[0] == "" or partition_columns[0].strip() == "":
                  partition_cols = None
              else:
                  partition_cols = partition_columns
          else:
              partition_cols = list(filter(None, partition_columns))
      return partition_cols
  \<close>
  \<^verbatim>\<open>filter(None, xs)\<close> keeps the truthy entries: for strings, the non-empty ones.
\<close>

definition get_partition_cols :: "string list \<Rightarrow> string list option" where
  "get_partition_cols partition_columns =
     (if partition_columns \<noteq> [] then
        (if length partition_columns = 1 then
           (if hd partition_columns = [] \<or> strip (hd partition_columns) = []
            then None
            else Some partition_columns)
         else Some (filter (\<lambda>s. s \<noteq> []) partition_columns))
      else None)"

section \<open>DataflowSpecUtils.get_cdc_apply_changes\<close>

record CDCApplyChanges =
  keys :: pyval
  sequence_by :: pyval
  where_ :: pyval
  ignore_null_updates :: pyval
  apply_as_deletes :: pyval
  apply_as_truncates :: pyval
  column_list :: pyval
  except_column_list :: pyval
  scd_type :: pyval
  track_history_column_list :: pyval
  track_history_except_column_list :: pyval
  flow_name :: pyval
  once :: pyval
  ignore_null_updates_column_list :: pyval
  ignore_null_updates_except_column_list :: pyval

definition cdc_applychanges_api_mandatory_attributes :: "string list" where
  "cdc_applychanges_api_mandatory_attributes = [''keys'', ''sequence_by'', ''scd_type'']"

definition cdc_applychanges_api_attributes :: "string list" where
  "cdc_applychanges_api_attributes =
     [''keys'', ''sequence_by'', ''where'', ''ignore_null_updates'', ''apply_as_deletes'',
      ''apply_as_truncates'', ''column_list'', ''except_column_list'', ''scd_type'',
      ''track_history_column_list'', ''track_history_except_column_list'', ''flow_name'',
      ''once'', ''ignore_null_updates_column_list'',
      ''ignore_null_updates_except_column_list'']"

definition cdc_applychanges_api_attributes_defaults :: pydict where
  "cdc_applychanges_api_attributes_defaults =
     [(''where'', PyNone),
      (''ignore_null_updates'', PyBool False),
      (''apply_as_deletes'', PyNone),
      (''apply_as_truncates'', PyNone),
      (''column_list'', PyNone),
      (''except_column_list'', PyNone),
      (''track_history_column_list'', PyNone),
      (''track_history_except_column_list'', PyNone),
      (''flow_name'', PyNone),
      (''once'', PyBool False),
      (''ignore_null_updates_column_list'', PyNone),
      (''ignore_null_updates_except_column_list'', PyNone)]"

definition additional_cdc_apply_changes_columns :: "string list" where
  "additional_cdc_apply_changes_columns = [''flow_name'', ''once'']"

text \<open>
  \<^verbatim>\<open>CDCApplyChanges(**d)\<close>: the dataclass constructor takes exactly its fifteen fields as
  keyword arguments and raises \<^verbatim>\<open>TypeError\<close> on an unexpected or a missing one.
\<close>

definition new_CDCApplyChanges :: "pydict \<Rightarrow> error + CDCApplyChanges" where
  "new_CDCApplyChanges d =
     (if \<not> set (dict_keys d) \<subseteq> set cdc_applychanges_api_attributes
      then Inl (TypeError ''unexpected keyword argument'')
      else if \<not> set cdc_applychanges_api_attributes \<subseteq> set (dict_keys d)
      then Inl (TypeError ''missing required argument'')
      else Inr \<lparr>keys = the (map_of d ''keys''),
                sequence_by = the (map_of d ''sequence_by''),
                where_ = the (map_of d ''where''),
                ignore_null_updates = the (map_of d ''ignore_null_updates''),
                apply_as_deletes = the (map_of d ''apply_as_deletes''),
                apply_as_truncates = the (map_of d ''apply_as_truncates''),
                column_list = the (map_of d ''column_list''),
                except_column_list = the (map_of d ''except_column_list''),
                scd_type = the (map_of d ''scd_type''),
                track_history_column_list = the (map_of d ''track_history_column_list''),
                track_history_except_column_list =
                  the (map_of d ''track_history_except_column_list''),
                flow_name = the (map_of d ''flow_name''),
                once = the (map_of d ''once''),
                ignore_null_updates_column_list =
                  the (map_of d ''ignore_null_updates_column_list''),
                ignore_null_updates_except_column_list =
                  the (map_of d ''ignore_null_updates_except_column_list'')\<rparr>)"

text \<open>
  The loop \<^verbatim>\<open>for k in missing: d[k] = defaults[k]\<close>; a key without a default is a
  \<^verbatim>\<open>KeyError\<close>.
\<close>

fun fill_missing_defaults :: "pydict \<Rightarrow> pydict \<Rightarrow> string list \<Rightarrow> error + pydict" where
  "fill_missing_defaults defaults d [] = Inr d"
| "fill_missing_defaults defaults d (k # ks) =
     (case map_of defaults k of
        None \<Rightarrow> Inl (KeyError k)
      | Some v \<Rightarrow> fill_missing_defaults defaults (AList.update k v d) ks)"

text \<open>
  \<^verbatim>\<open>
  json_cdc_apply_changes = json.loads(cdc_apply_changes)
  payload_keys = json_cdc_apply_changes.keys()
  missing_cdc_payload_keys = set(cdc_applychanges_api_attributes).difference(payload_keys)
  if set(cdc_applychanges_api_mandatory_attributes) - set(payload_keys):
      missing_mandatory_attr = set(cdc_applychanges_api_mandatory_attributes) - set(payload_keys)
      raise Exception(f"mandatory missing keys= {missing_mandatory_attr} for merge info")
  for missing_cdc_payload_key in missing_cdc_payload_keys:
      json_cdc_apply_changes[missing_cdc_payload_key] =
          cdc_applychanges_api_attributes_defaults[missing_cdc_payload_key]
  json_cdc_apply_changes = populate_additional_df_cols(
      json_cdc_apply_changes, additional_cdc_apply_changes_columns)
  return CDCApplyChanges(**json_cdc_apply_changes)
  \<close>
  The argument is the value \<^verbatim>\<open>json.loads\<close> returned. The error
  \<open>MandatoryMissingKeys ks ''merge info''\<close> stands for the exception whose message prints
  the set \<open>ks\<close>.
\<close>

definition get_cdc_apply_changes :: "pyval \<Rightarrow> error + CDCApplyChanges" where
  "get_cdc_apply_changes json_cdc_apply_changes =
     (case json_cdc_apply_changes of
        PyDict d \<Rightarrow>
          (let payload_keys = dict_keys d;
               missing_cdc_payload_keys =
                 filter (\<lambda>a. a \<notin> set payload_keys) cdc_applychanges_api_attributes;
               missing_mandatory_attr =
                 set cdc_applychanges_api_mandatory_attributes - set payload_keys
           in if missing_mandatory_attr \<noteq> {}
              then Inl (MandatoryMissingKeys missing_mandatory_attr ''merge info'')
              else (case fill_missing_defaults cdc_applychanges_api_attributes_defaults d
                           missing_cdc_payload_keys of
                      Inl e \<Rightarrow> Inl e
                    | Inr d' \<Rightarrow>
                        new_CDCApplyChanges
                          (populate_additional_df_cols d' additional_cdc_apply_changes_columns)))
      | _ \<Rightarrow> Inl (AttributeError ''keys''))"

text \<open>
  The value a field of the record gets from a payload \<open>p\<close>: the payload's value, or the
  default of \<open>cdc_applychanges_api_attributes_defaults\<close> when the payload has none. (Used to
  state results only.)
\<close>

definition cdc_field :: "pydict \<Rightarrow> string \<Rightarrow> pyval" where
  "cdc_field p k = the (map_of (p @ cdc_applychanges_api_attributes_defaults) k)"

section \<open>DataflowSpecUtils.get_sinks\<close>

record DLTSink =
  name :: pyval
  format :: pyval
  options :: pyval

definition sink_mandatory_attributes :: "string list" where
  "sink_mandatory_attributes = [''name'', ''format'', ''options'']"

definition supported_sink_formats :: "string list" where
  "supported_sink_formats = [''delta'', ''kafka'']"

definition new_DLTSink :: "pydict \<Rightarrow> error + DLTSink" where
  "new_DLTSink d =
     (if \<not> set (dict_keys d) \<subseteq> set sink_mandatory_attributes
      then Inl (TypeError ''unexpected keyword argument'')
      else if \<not> set sink_mandatory_attributes \<subseteq> set (dict_keys d)
      then Inl (TypeError ''missing required argument'')
      else Inr \<lparr>name = the (map_of d ''name''),
                format = the (map_of d ''format''),
                options = the (map_of d ''options'')\<rparr>)"

text \<open>
  The two external services of \<^verbatim>\<open>get_sinks\<close> are parameters: \<open>loads\<close> is
  \<^verbatim>\<open>json.loads\<close> on a string (\<open>None\<close> when the text is not JSON), and \<open>secrets_get\<close> is
  \<^verbatim>\<open>dbutils.secrets.get(scope, key)\<close> (\<open>None\<close> when the secret store raises).

  \<^verbatim>\<open>
  if 'options' in json_sink.keys():
      json_sink['options'] = json.loads(json_sink['options'])
  \<close>
\<close>

definition load_sink_options :: "(string \<Rightarrow> pyval option) \<Rightarrow> pydict \<Rightarrow> error + pydict" where
  "load_sink_options loads json_sink =
     (if ''options'' \<in> set (dict_keys json_sink) then
        (case map_of json_sink ''options'' of
           Some (PyStr s) \<Rightarrow>
             (case loads s of
                None \<Rightarrow> Inl (JSONDecodeError s)
              | Some v \<Rightarrow> Inr (AList.update ''options'' v json_sink))
         | _ \<Rightarrow> Inl (TypeError ''the JSON object must be str, bytes or bytearray''))
      else Inr json_sink)"

text \<open>
  \<^verbatim>\<open>
  if format == "kafka" and 'options' in json_sink.keys():
      kafka_options_json = json_sink['options']
      dbutils = DataflowSpecUtils.get_db_utils(spark)
      if "kafka_bootstrap_servers_secrets_scope" in kafka_options_json.keys() and \
         "kafka_bootstrap_servers_secrets_key" in kafka_options_json.keys():
          kbs_secrets_scope = kafka_options_json["kafka_bootstrap_servers_secrets_scope"]
          kbs_secrets_key = kafka_options_json["kafka_bootstrap_servers_secrets_key"]
          json_sink['options']["kafka.bootstrap.servers"] =
              dbutils.secrets.get(kbs_secrets_scope, kbs_secrets_key)
          del json_sink['options']['kafka_bootstrap_servers_secrets_scope']
          del json_sink['options']['kafka_bootstrap_servers_secrets_key']
  \<close>
  The assignment and the two deletions are \<open>resolved_kafka_options\<close>.
  \<^verbatim>\<open>get_db_utils\<close> is taken to return the platform's utilities.
\<close>

definition resolved_kafka_options :: "string \<Rightarrow> pydict \<Rightarrow> pydict" where
  "resolved_kafka_options secret kafka_options_json =
     AList.delete ''kafka_bootstrap_servers_secrets_key''
       (AList.delete ''kafka_bootstrap_servers_secrets_scope''
          (AList.update ''kafka.bootstrap.servers'' (PyStr secret) kafka_options_json))"

definition resolve_kafka_secrets ::
  "(pyval \<Rightarrow> pyval \<Rightarrow> string option) \<Rightarrow> pyval \<Rightarrow> pydict \<Rightarrow> error + pydict" where
  "resolve_kafka_secrets secrets_get sink_format json_sink =
     (if sink_format = PyStr ''kafka'' \<and> ''options'' \<in> set (dict_keys json_sink) then
        (case map_of json_sink ''options'' of
           Some (PyDict kafka_options_json) \<Rightarrow>
             (if ''kafka_bootstrap_servers_secrets_scope'' \<in> set (dict_keys kafka_options_json)
                 \<and> ''kafka_bootstrap_servers_secrets_key'' \<in> set (dict_keys kafka_options_json)
              then
                (let kbs_secrets_scope =
                       the (map_of kafka_options_json ''kafka_bootstrap_servers_secrets_scope'');
                     kbs_secrets_key =
                       the (map_of kafka_options_json ''kafka_bootstrap_servers_secrets_key'')
                 in case secrets_get kbs_secrets_scope kbs_secrets_key of
                      None \<Rightarrow> Inl (SecretNotFound kbs_secrets_scope kbs_secrets_key)
                    | Some secret \<Rightarrow>
                        Inr (AList.update ''options''
                              (PyDict (resolved_kafka_options secret kafka_options_json))
                              json_sink))
              else Inr json_sink)
         | _ \<Rightarrow> Inl (AttributeError ''keys''))
      else Inr json_sink)"

text \<open>
  The body of the loop \<^verbatim>\<open>for json_sink in json_sinks\<close>, for one entry. The local
  variable \<^verbatim>\<open>format\<close> of the source is \<open>sink_format\<close> here.
\<close>

definition get_sinks_entry ::
  "(string \<Rightarrow> pyval option) \<Rightarrow> (pyval \<Rightarrow> pyval \<Rightarrow> string option) \<Rightarrow> pyval \<Rightarrow> error + DLTSink" where
  "get_sinks_entry loads secrets_get json_sink =
     (case json_sink of
        PyDict d \<Rightarrow>
          (let payload_keys = dict_keys d;
               missing_mandatory_attr = set sink_mandatory_attributes - set payload_keys
           in if missing_mandatory_attr \<noteq> {}
              then Inl (MandatoryMissingKeys missing_mandatory_attr ''sink'')
              else
                (let sink_format = the (map_of d ''format'')
                 in if sink_format \<notin> PyStr ` set supported_sink_formats
                    then Inl (UnsupportedSinkFormat sink_format)
                    else (case load_sink_options loads d of
                            Inl e \<Rightarrow> Inl e
                          | Inr d1 \<Rightarrow>
                              (case resolve_kafka_secrets secrets_get sink_format d1 of
                                 Inl e \<Rightarrow> Inl e
                               | Inr d2 \<Rightarrow> new_DLTSink d2))))
      | _ \<Rightarrow> Inl (AttributeError ''keys''))"

fun get_sinks_loop ::
  "(string \<Rightarrow> pyval option) \<Rightarrow> (pyval \<Rightarrow> pyval \<Rightarrow> string option) \<Rightarrow> pyval list
     \<Rightarrow> error + DLTSink list" where
  "get_sinks_loop loads secrets_get [] = Inr []"
| "get_sinks_loop loads secrets_get (json_sink # json_sinks) =
     (case get_sinks_entry loads secrets_get json_sink of
        Inl e \<Rightarrow> Inl e
      | Inr dlt_sink \<Rightarrow>
          (case get_sinks_loop loads secrets_get json_sinks of
             Inl e \<Rightarrow> Inl e
           | Inr dlt_sinks \<Rightarrow> Inr (dlt_sink # dlt_sinks)))"

text \<open>What a \<^verbatim>\<open>for\<close> loop iterates over, for each kind of value.\<close>

fun py_iter :: "pyval \<Rightarrow> error + pyval list" where
  "py_iter (PyList xs) = Inr xs"
| "py_iter (PyDict d) = Inr (map (PyStr \<circ> fst) d)"
| "py_iter (PyStr s) = Inr (map (\<lambda>c. PyStr [c]) s)"
| "py_iter _ = Inl (TypeError ''object is not iterable'')"

definition get_sinks ::
  "(string \<Rightarrow> pyval option) \<Rightarrow> (pyval \<Rightarrow> pyval \<Rightarrow> string option) \<Rightarrow> pyval
     \<Rightarrow> error + DLTSink list" where
  "get_sinks loads secrets_get json_sinks =
     (case py_iter json_sinks of
        Inl e \<Rightarrow> Inl e
      | Inr entries \<Rightarrow> get_sinks_loop loads secrets_get entries)"

text \<open>
  Example services and payloads: a parser that knows two option texts, a secret store with
  one secret, and three sink entries.
\<close>

definition kafka_options_text :: string where
  \<open>kafka_options_text =
     ''{"topic": "t", "kafka_bootstrap_servers_secrets_scope": "sc", "kafka_bootstrap_servers_secrets_key": "k"}''\<close>

definition example_loads :: "string \<Rightarrow> pyval option" where
  "example_loads s =
     (if s = kafka_options_text
      then Some (PyDict [(''topic'', PyStr ''t''),
                         (''kafka_bootstrap_servers_secrets_scope'', PyStr ''sc''),
                         (''kafka_bootstrap_servers_secrets_key'', PyStr ''k'')])
      else if s = ''{}'' then Some (PyDict [])
      else None)"

definition example_secrets_get :: "pyval \<Rightarrow> pyval \<Rightarrow> string option" where
  "example_secrets_get scope key =
     (if scope = PyStr ''sc'' \<and> key = PyStr ''k'' then Some ''broker:9092'' else None)"

definition delta_sink :: pydict where
  "delta_sink = [(''name'', PyStr ''d''), (''format'', PyStr ''delta''), (''options'', PyStr ''{}'')]"

definition avro_sink :: pydict where
  "avro_sink = [(''name'', PyStr ''a''), (''format'', PyStr ''avro''), (''options'', PyStr ''{}'')]"

definition kafka_sink :: pydict where
  "kafka_sink =
     [(''name'', PyStr ''k''), (''format'', PyStr ''kafka''),
      (''options'', PyStr kafka_options_text)]"

section \<open>DataflowSpecUtils.check_spark_dataflowpipeline_conf_params\<close>

text \<open>
  The run-time configuration \<^verbatim>\<open>spark.conf\<close> is a map from keys to values;
  \<^verbatim>\<open>spark.conf.get(key, None)\<close> is the lookup. The messages are the source's f-strings,
  with their line breaks and indentation.
\<close>

definition newline :: string where
  "newline = [CHR 0x0A]"

definition spaces :: "nat \<Rightarrow> string" where
  "spaces n = replicate n (CHR '' '')"

definition apostrophe :: string where
  "apostrophe = [CHR 0x27]"

text \<open>
  \<^verbatim>\<open>
  layer = spark.conf.get("layer", None)
  if layer is None:
      raise Exception(f"""parameter {layer_arg} is missing in spark.conf.
                 Please set spark.conf.set({layer_arg},'silver') """)
  dataflow_spec_table = spark.conf.get(f"{layer}.dataflowspecTable", None)
  if dataflow_spec_table is None:
      raise Exception(f"""parameter {layer_arg}.dataflowspecTable is missing in sparkConf
                Please set spark.conf.set('{layer_arg}.dataflowspecTable'='database.dataflowSpecTableName')""")
  group = spark.conf.get(f"{layer}.group", None)
  dataflow_ids = spark.conf.get(f"{layer}.dataflowIds", None)
  if group is None and dataflow_ids is None:
      raise Exception(f"""please provide {layer}.group or {layer}.dataflowIds in spark.conf
                 Please set spark.conf.set('{layer}.group'='groupName')
                 OR
                 spark.conf.set('{layer}.dataflowIds'='comma seperated dataflowIds')
                 """)
  \<close>
\<close>

definition check_spark_dataflowpipeline_conf_params ::
  "(string \<rightharpoonup> string) \<Rightarrow> string \<Rightarrow> error + unit" where
  "check_spark_dataflowpipeline_conf_params conf layer_arg =
     (case conf ''layer'' of
        None \<Rightarrow>
          Inl (Exception
                (''parameter '' @ layer_arg @ '' is missing in spark.conf.'' @ newline
                 @ spaces 17 @ ''Please set spark.conf.set('' @ layer_arg @ '','silver') ''))
      | Some layer \<Rightarrow>
          (case conf (layer @ ''.dataflowspecTable'') of
             None \<Rightarrow>
               Inl (Exception
                     (''parameter '' @ layer_arg @ ''.dataflowspecTable is missing in sparkConf''
                      @ newline @ spaces 16 @ ''Please set spark.conf.set('' @ apostrophe
                      @ layer_arg
                      @ ''.dataflowspecTable'='database.dataflowSpecTableName')''))
           | Some dataflow_spec_table \<Rightarrow>
               (if conf (layer @ ''.group'') = None \<and> conf (layer @ ''.dataflowIds'') = None
                then
                  Inl (Exception
                        (''please provide '' @ layer @ ''.group or '' @ layer
                         @ ''.dataflowIds in spark.conf'' @ newline
                         @ spaces 17 @ ''Please set spark.conf.set('' @ apostrophe @ layer
                         @ ''.group'='groupName')'' @ newline
                         @ spaces 17 @ ''OR'' @ newline
                         @ spaces 17 @ ''spark.conf.set('' @ apostrophe @ layer
                         @ ''.dataflowIds'='comma seperated dataflowIds')'' @ newline
                         @ spaces 17))
                else Inr ())))"

section \<open>DataflowSpecUtils.\_get\_dataflow\_spec\<close>

text \<open>
  A row of the dataflow-spec table: the two columns of the flow's identity, the
  \<^verbatim>\<open>version\<close> column (of any type the engine can order) and the remaining columns.
\<close>

record 'v spec_row =
  dataFlowId :: string
  dataFlowGroup :: string
  version :: 'v
  other_columns :: pydict

text \<open>
  The Spark session, as far as the function uses it: the run-time configuration, the
  catalog read by \<^verbatim>\<open>spark.read.table\<close> (\<open>None\<close>: no such table), and the engine's
  reading of a SQL condition string given to \<^verbatim>\<open>DataFrame.where\<close> (\<open>None\<close>: the string
  does not parse).
\<close>

record 'v spark_session =
  conf :: "string \<rightharpoonup> string"
  read_table :: "string \<rightharpoonup> 'v spec_row list"
  sql_expr :: "string \<Rightarrow> ('v spec_row \<Rightarrow> bool) option"

text \<open>Truthiness of an optional string: \<^verbatim>\<open>None\<close> and \<^verbatim>\<open>""\<close> are falsy.\<close>

definition truthy :: "string option \<Rightarrow> bool" where
  "truthy s = (case s of None \<Rightarrow> False | Some v \<Rightarrow> v \<noteq> [])"

text \<open>
  \<^verbatim>\<open>
  version_history = Window.partitionBy(col("dataFlowGroup"), col("dataFlowId"))
                          .orderBy(col("version").desc())
  dataflow_spec_df = (
      dataflow_spec_df.withColumn("row_num", row_number().over(version_history))
      .where(col("row_num") == lit(1))  # latest version
      .drop(col("row_num")))
  \<close>
  A data frame is the list of its rows. The window partitions the rows by the pair
  \<open>flow_key = (dataFlowGroup, dataFlowId)\<close>, orders each partition by \<open>version\<close> descending (rows
  with equal versions stay in the order of the frame: the engine leaves their order
  open), and \<open>row_number\<close> numbers each partition from 1.
\<close>

definition flow_key :: "'v spec_row \<Rightarrow> string \<times> string" where
  "flow_key r = (dataFlowGroup r, dataFlowId r)"

definition partitionBy :: "'v spec_row list \<Rightarrow> 'v spec_row list list" where
  "partitionBy df = map (\<lambda>k. filter (\<lambda>r. flow_key r = k) df) (remdups (map flow_key df))"

definition orderBy_version_desc :: "('v::linorder) spec_row list \<Rightarrow> 'v spec_row list" where
  "orderBy_version_desc part = rev (sort_key version (rev part))"

definition row_number :: "'a list \<Rightarrow> ('a \<times> nat) list" where
  "row_number part = zip part [1..<Suc (length part)]"

definition latest_version :: "('v::linorder) spec_row list \<Rightarrow> 'v spec_row list" where
  "latest_version df =
     map fst
       (filter (\<lambda>(r, row_num). row_num = 1)
          (concat (map (\<lambda>part. row_number (orderBy_version_desc part)) (partitionBy df))))"

text \<open>
  \<^verbatim>\<open>
  if not group:
      group = spark.conf.get(f"{layer}.group", None)
  if not dataflow_ids:
      dataflow_ids = spark.conf.get(f"{layer}.dataflowIds", None)
  if not dataflow_spec_df:
      dataflow_spec_table = spark.conf.get(f"{layer}.dataflowspecTable")
      dataflow_spec_df = spark.read.table(dataflow_spec_table)
  if group or dataflow_ids:
      dataflow_spec_df = dataflow_spec_df.where(
          col("dataFlowGroup") == lit(group) if group else f"dataFlowId in ({dataflow_ids})")
  \<close>
  followed by the window above. (\<open>group\<close> names a constant of the library, so the
  variable is \<open>group_arg\<close> before and \<open>group_val\<close> after the first step.) The
  steps before the window:
\<close>

definition effective_group :: "'v spark_session \<Rightarrow> string \<Rightarrow> string option \<Rightarrow> string option" where
  "effective_group spark layer group_arg =
     (if \<not> truthy group_arg then conf spark (layer @ ''.group'') else group_arg)"

definition effective_dataflow_ids ::
  "'v spark_session \<Rightarrow> string \<Rightarrow> string option \<Rightarrow> string option" where
  "effective_dataflow_ids spark layer dataflow_ids_arg =
     (if \<not> truthy dataflow_ids_arg then conf spark (layer @ ''.dataflowIds'')
      else dataflow_ids_arg)"

definition load_dataflow_spec_df ::
  "'v spark_session \<Rightarrow> string \<Rightarrow> 'v spec_row list option \<Rightarrow> error + 'v spec_row list" where
  "load_dataflow_spec_df spark layer dataflow_spec_df =
     (case dataflow_spec_df of
        None \<Rightarrow>
          (case conf spark (layer @ ''.dataflowspecTable'') of
             None \<Rightarrow> Inl (ConfKeyNotSet (layer @ ''.dataflowspecTable''))
           | Some dataflow_spec_table \<Rightarrow>
               (case read_table spark dataflow_spec_table of
                  None \<Rightarrow> Inl (TableNotFound dataflow_spec_table)
                | Some df \<Rightarrow> Inr df))
      | Some df \<Rightarrow> Inr df)"

definition where_group_or_ids ::
  "'v spark_session \<Rightarrow> string option \<Rightarrow> string option \<Rightarrow> 'v spec_row list
     \<Rightarrow> error + 'v spec_row list" where
  "where_group_or_ids spark group_val dataflow_ids df =
     (if truthy group_val \<or> truthy dataflow_ids then
        (if truthy group_val
         then Inr (filter (\<lambda>r. dataFlowGroup r = the group_val) df)
         else (case sql_expr spark (''dataFlowId in ('' @ the dataflow_ids @ '')'') of
                 None \<Rightarrow> Inl (ParseException (''dataFlowId in ('' @ the dataflow_ids @ '')''))
               | Some condition \<Rightarrow> Inr (filter condition df)))
      else Inr df)"

definition get_dataflow_spec ::
  "('v::linorder) spark_session \<Rightarrow> string \<Rightarrow> 'v spec_row list option \<Rightarrow> string option
     \<Rightarrow> string option \<Rightarrow> error + 'v spec_row list" where
  "get_dataflow_spec spark layer dataflow_spec_df group_arg dataflow_ids_arg =
     (let group_val = effective_group spark layer group_arg;
          dataflow_ids = effective_dataflow_ids spark layer dataflow_ids_arg
      in case load_dataflow_spec_df spark layer dataflow_spec_df of
           Inl e \<Rightarrow> Inl e
         | Inr df \<Rightarrow>
             (case where_group_or_ids spark group_val dataflow_ids df of
                Inl e \<Rightarrow> Inl e
              | Inr selected \<Rightarrow> Inr (latest_version selected)))"

text \<open>
  The row of a partition that the window puts first. (Used to state results only.)
\<close>

definition newest :: "('v::linorder) spec_row list \<Rightarrow> 'v spec_row" where
  "newest part = last (sort_key version (rev part))"

text \<open>
  An example table: three versions of the flow \<open>(G, F)\<close> and one row of another flow, in
  a session whose configuration names the table, the group \<open>G\<close> and the id list \<open>'F2'\<close>.
\<close>

definition flow_v1 :: "nat spec_row" where
  "flow_v1 = \<lparr>dataFlowId = ''F'', dataFlowGroup = ''G'', version = 1,
               other_columns = [(''sourceFormat'', PyStr ''cloudFiles'')]\<rparr>"

definition flow_v2 :: "nat spec_row" where
  "flow_v2 = \<lparr>dataFlowId = ''F'', dataFlowGroup = ''G'', version = 2,
               other_columns = [(''sourceFormat'', PyStr ''kafka'')]\<rparr>"

definition flow_v3 :: "nat spec_row" where
  "flow_v3 = \<lparr>dataFlowId = ''F'', dataFlowGroup = ''G'', version = 3,
               other_columns = [(''sourceFormat'', PyStr ''eventhub'')]\<rparr>"

definition other_flow :: "nat spec_row" where
  "other_flow = \<lparr>dataFlowId = ''F2'', dataFlowGroup = ''H'', version = 1,
                  other_columns = [(''sourceFormat'', PyStr ''delta'')]\<rparr>"

definition example_spark :: "nat spark_session" where
  "example_spark =
     \<lparr>conf = [''layer'' \<mapsto> ''bronze'', ''bronze.dataflowspecTable'' \<mapsto> ''db.spec'',
              ''bronze.group'' \<mapsto> ''G'', ''bronze.dataflowIds'' \<mapsto> '' 'F2' ''],
      read_table = [''db.spec'' \<mapsto> [flow_v2, flow_v3, other_flow, flow_v1]],
      sql_expr = (\<lambda>s. if s = ''dataFlowId in ( 'F2' )''
                       then Some (\<lambda>r. dataFlowId r = ''F2'') else None)\<rparr>"

section \<open>Integration test runner: process\_arguments\<close>

text \<open>
  The argument is \<^verbatim>\<open>vars(parser.parse_args())\<close>: the dictionary argparse returns, with
  one entry per declared option, \<^verbatim>\<open>None\<close> for an option not given on the command line.

  \<^verbatim>\<open>
  def check_cond_mandatory_arg(args, mandatory_args):
      for mand_arg in mandatory_args:
          if args[mand_arg] is None:
              raise Exception(f"Please provide '--{mand_arg}'")
  \<close>
\<close>

type_synonym parsed_args = "(string \<times> string option) list"

fun check_cond_mandatory_arg :: "parsed_args \<Rightarrow> string list \<Rightarrow> error + unit" where
  "check_cond_mandatory_arg args [] = Inr ()"
| "check_cond_mandatory_arg args (mand_arg # mandatory_args) =
     (case map_of args mand_arg of
        None \<Rightarrow> Inl (KeyError mand_arg)
      | Some None \<Rightarrow> Inl (Exception (''Please provide '--'' @ mand_arg @ apostrophe))
      | Some (Some v) \<Rightarrow> check_cond_mandatory_arg args mandatory_args)"

definition eventhub_mandatory_args :: "string list" where
  "eventhub_mandatory_args =
     [''eventhub_name'', ''eventhub_name_append_flow'', ''eventhub_producer_accesskey_name'',
      ''eventhub_consumer_accesskey_name'', ''eventhub_secrets_scope_name'',
      ''eventhub_namespace'', ''eventhub_port'']"

definition kafka_mandatory_args :: "string list" where
  "kafka_mandatory_args = [''kafka_topic_name'', ''kafka_broker'']"

text \<open>
  \<^verbatim>\<open>
  if args["source"] == "eventhub":
      check_cond_mandatory_arg(args, ["eventhub_name", ..., "eventhub_port"])
  elif args["source"] == "kafka":
      check_cond_mandatory_arg(args, ["kafka_topic_name", "kafka_broker"])
  return args
  \<close>
\<close>

definition process_arguments :: "parsed_args \<Rightarrow> error + parsed_args" where
  "process_arguments args =
     (case map_of args ''source'' of
        None \<Rightarrow> Inl (KeyError ''source'')
      | Some source \<Rightarrow>
          (if source = Some ''eventhub'' then
             (case check_cond_mandatory_arg args eventhub_mandatory_args of
                Inl e \<Rightarrow> Inl e
              | Inr _ \<Rightarrow> Inr args)
           else if source = Some ''kafka'' then
             (case check_cond_mandatory_arg args kafka_mandatory_args of
                Inl e \<Rightarrow> Inl e
              | Inr _ \<Rightarrow> Inr args)
           else Inr args))"

text \<open>
  The names of the fourteen options \<^verbatim>\<open>input_args\<close> declares, and the dictionary argparse
  builds from the options given on a command line it accepts: one entry per declared
  option, \<^verbatim>\<open>None\<close> where the option was not given.
\<close>

definition input_arg_names :: "string list" where
  "input_arg_names =
     [''profile'', ''uc_catalog_name'', ''cloud_provider_name'', ''source'',
      ''eventhub_name'', ''eventhub_name_append_flow'', ''eventhub_producer_accesskey_name'',
      ''eventhub_consumer_accesskey_name'', ''eventhub_secrets_scope_name'',
      ''eventhub_accesskey_secret_name'', ''eventhub_namespace'', ''eventhub_port'',
      ''kafka_topic_name'', ''kafka_broker'']"

definition vars_parse_args :: "(string \<rightharpoonup> string) \<Rightarrow> parsed_args" where
  "vars_parse_args given = map (\<lambda>arg. (arg, given arg)) input_arg_names"

text \<open>An event-hub command line that gives all seven event-hub options.\<close>

definition eventhub_given :: "string \<rightharpoonup> string" where
  "eventhub_given =
     [''uc_catalog_name'' \<mapsto> ''cat'', ''cloud_provider_name'' \<mapsto> ''azure'',
      ''source'' \<mapsto> ''eventhub'', ''eventhub_name'' \<mapsto> ''iot'',
      ''eventhub_name_append_flow'' \<mapsto> ''iot_af'',
      ''eventhub_producer_accesskey_name'' \<mapsto> ''producer'',
      ''eventhub_consumer_accesskey_name'' \<mapsto> ''consumer'',
      ''eventhub_secrets_scope_name'' \<mapsto> ''eventhubs_creds'',
      ''eventhub_namespace'' \<mapsto> ''topic-standard'', ''eventhub_port'' \<mapsto> ''9093'']"

section \<open>Integration test runner: upload\_files\_to\_databricks\<close>

text \<open>
  The two \<^verbatim>\<open>os.walk\<close> loops of the operation. A walk is the list of its
  \<open>(root, dirs, files)\<close> triples. The state is the local variable \<^verbatim>\<open>file\<close> (\<open>None\<close>
  while it is unbound) and the calls of \<^verbatim>\<open>ws.files.upload\<close> made so far, each with its
  remote \<open>file_path\<close> and the local path whose contents it sends.
\<close>

record upload =
  file_path :: string
  contents :: string

type_synonym walk_entry = "string \<times> string list \<times> string list"

type_synonym upload_state = "string option \<times> upload list"

definition os_path_join :: "string \<Rightarrow> string \<Rightarrow> string" where
  "os_path_join root file =
     (if file \<noteq> [] \<and> hd file = CHR ''/'' then file
      else if root = [] \<or> last root = CHR ''/'' then root @ file
      else root @ ''/'' @ file)"

definition endswith :: "string \<Rightarrow> string \<Rightarrow> bool" where
  "endswith s suffix =
     (length suffix \<le> length s \<and> drop (length s - length suffix) s = suffix)"

definition ws_files_upload :: "string \<Rightarrow> string \<Rightarrow> string \<Rightarrow> upload" where
  "ws_files_upload uc_volume_path root file =
     \<lparr>file_path = uc_volume_path @ ''/'' @ root @ ''/'' @ file,
      contents = os_path_join root file\<rparr>"

text \<open>
  \<^verbatim>\<open>
  for file in files:
      with open(os.path.join(root, file), "rb") as content:
          self.ws.files.upload(file_path=f"{runner_conf.uc_volume_path}/{root}/{file}",
                               contents=content, overwrite=True)
  \<close>
\<close>

fun upload_each :: "string \<Rightarrow> string \<Rightarrow> string list \<Rightarrow> upload_state \<Rightarrow> upload_state" where
  "upload_each uc_volume_path root [] st = st"
| "upload_each uc_volume_path root (file # files) (_, uploads) =
     upload_each uc_volume_path root files
       (Some file, uploads @ [ws_files_upload uc_volume_path root file])"

text \<open>
  \<^verbatim>\<open>
  for root, dirs, files in os.walk(f"{runner_conf.int_tests_dir}/resources"):
      for file in files:
          ... upload ...
  \<close>
\<close>

fun upload_resources :: "string \<Rightarrow> walk_entry list \<Rightarrow> upload_state \<Rightarrow> upload_state" where
  "upload_resources uc_volume_path [] st = st"
| "upload_resources uc_volume_path ((root, dirs, files) # walk) st =
     upload_resources uc_volume_path walk (upload_each uc_volume_path root files st)"

text \<open>
  \<^verbatim>\<open>
  for root, dirs, files in os.walk(f"{runner_conf.int_tests_dir}/conf"):
      if file.endswith("json"):
          for file in files:
              ... upload ...
  \<close>
  Reading \<^verbatim>\<open>file\<close> while no loop has bound it raises \<^verbatim>\<open>UnboundLocalError\<close>.
\<close>

fun upload_conf :: "string \<Rightarrow> walk_entry list \<Rightarrow> upload_state \<Rightarrow> error + upload_state" where
  "upload_conf uc_volume_path [] st = Inr st"
| "upload_conf uc_volume_path ((root, dirs, files) # walk) (file, uploads) =
     (case file of
        None \<Rightarrow> Inl (UnboundLocalError ''file'')
      | Some last_file \<Rightarrow>
          (if endswith last_file ''json''
           then upload_conf uc_volume_path walk
                  (upload_each uc_volume_path root files (file, uploads))
           else upload_conf uc_volume_path walk (file, uploads)))"

definition upload_files_to_databricks ::
  "string \<Rightarrow> walk_entry list \<Rightarrow> walk_entry list \<Rightarrow> error + upload list" where
  "upload_files_to_databricks uc_volume_path resources_walk conf_walk =
     (case upload_conf uc_volume_path conf_walk
             (upload_resources uc_volume_path resources_walk (None, [])) of
        Inl e \<Rightarrow> Inl e
      | Inr (_, uploads) \<Rightarrow> Inr uploads)"

section \<open>Integration test runner: run\<close>

text \<open>
  The operations \<^verbatim>\<open>run\<close> calls. Each one talks to the platform; what it does there is not
  modelled, only whether it returns or raises (\<open>raises op = Some e\<close>). An action takes the
  trace of operations started so far and returns the extended trace with either the
  exception that left it or its result. \<^verbatim>\<open>exit()\<close> raises \<^verbatim>\<open>SystemExit\<close>, which nothing in
  \<^verbatim>\<open>run\<close> or \<^verbatim>\<open>main\<close> catches.
\<close>

datatype operation =
    initialize_uc_resources
  | generate_onboarding_file
  | upload_files
  | create_bronze_silver_dlt
  | launch_workflow
  | download_test_results
  | clean_up

type_synonym action = "operation list \<Rightarrow> (error + unit) \<times> operation list"

definition call :: "(operation \<Rightarrow> error option) \<Rightarrow> operation \<Rightarrow> action" where
  "call raises op trace =
     (case raises op of
        Some e \<Rightarrow> (Inl e, trace @ [op])
      | None \<Rightarrow> (Inr (), trace @ [op]))"

definition exit_process :: action where
  "exit_process trace = (Inl SystemExit, trace)"

definition and_then :: "action \<Rightarrow> action \<Rightarrow> action" where
  "and_then first second trace =
     (case first trace of
        (Inl e, trace') \<Rightarrow> (Inl e, trace')
      | (Inr _, trace') \<Rightarrow> second trace')"

text \<open>
  \<^verbatim>\<open>
  def init_dltmeta_runner_conf(self, runner_conf):
      self.initialize_uc_resources(runner_conf)
      self.generate_onboarding_file(runner_conf)
      self.upload_files_to_databricks(runner_conf)

  def run(self, runner_conf):
      self.init_dltmeta_runner_conf(runner_conf)
      exit()
      self.create_bronze_silver_dlt(runner_conf)
      self.launch_workflow(runner_conf)
      self.download_test_results(runner_conf)
  \<close>
\<close>

definition init_dltmeta_runner_conf :: "(operation \<Rightarrow> error option) \<Rightarrow> action" where
  "init_dltmeta_runner_conf raises =
     and_then (call raises initialize_uc_resources)
       (and_then (call raises generate_onboarding_file)
          (call raises upload_files))"

definition run :: "(operation \<Rightarrow> error option) \<Rightarrow> action" where
  "run raises =
     and_then (init_dltmeta_runner_conf raises)
       (and_then exit_process
          (and_then (call raises create_bronze_silver_dlt)
             (and_then (call raises launch_workflow)
                (call raises download_test_results))))"

section \<open>Properties\<close>

subsection \<open>Dictionaries\<close>

lemma in_dict_keys_iff: "k \<in> set (dict_keys d) \<longleftrightarrow> map_of d k \<noteq> None"
  by (simp add: dict_keys_def map_of_eq_None_iff)

lemma populate_additional_df_cols_map_of:
  "map_of (populate_additional_df_cols d cols) k =
     (if k \<in> set cols \<and> k \<notin> set (dict_keys d) then Some PyNone else map_of d k)"
proof (induction cols arbitrary: d)
  case Nil
  then show ?case by simp
next
  case (Cons c cols)
  then show ?case
    by (auto simp: in_dict_keys_iff update_conv')
qed

lemma populate_additional_df_cols_keys:
  "set (dict_keys (populate_additional_df_cols d cols)) = set (dict_keys d) \<union> set cols"
  by (auto simp: in_dict_keys_iff populate_additional_df_cols_map_of)

subsection \<open>Partition columns\<close>

lemma strip_empty_iff: "strip s = [] \<longleftrightarrow> (\<forall>c \<in> set s. isspace c)"
proof
  assume "strip s = []"
  then have all_tail: "\<forall>c \<in> set (dropWhile isspace s). isspace c"
    by (simp add: strip_def dropWhile_eq_Nil_conv)
  have "dropWhile isspace s = []"
  proof (rule ccontr)
    assume ne: "dropWhile isspace s \<noteq> []"
    then have "\<not> isspace (hd (dropWhile isspace s))"
      by (rule hd_dropWhile)
    moreover have "hd (dropWhile isspace s) \<in> set (dropWhile isspace s)"
      using ne by simp
    ultimately show False using all_tail by blast
  qed
  then show "\<forall>c \<in> set s. isspace c"
    by (simp add: dropWhile_eq_Nil_conv)
next
  assume "\<forall>c \<in> set s. isspace c"
  then show "strip s = []"
    by (auto simp: strip_def dest: set_dropWhileD)
qed

text \<open>
  Claim C5. \<open>get_partition_cols\<close> returns the absent value for the empty list and for a
  single entry that is empty or consists of whitespace only; a single entry of any other
  kind is returned unchanged; a list of two or more entries is returned with its empty
  entries removed.
\<close>

theorem get_partition_cols_cases:
  "get_partition_cols partition_columns =
     (if partition_columns = [] then None
      else if length partition_columns = 1 then
        (if \<forall>c \<in> set (hd partition_columns). isspace c then None
         else Some partition_columns)
      else Some (filter (\<lambda>s. s \<noteq> []) partition_columns))"
  by (auto simp: get_partition_cols_def strip_empty_iff)

text \<open>The five inputs of the specification's example.\<close>

theorem get_partition_cols_cases_witness:
  "get_partition_cols [] = None
   \<and> get_partition_cols [''''] = None
   \<and> get_partition_cols [''  ''] = None
   \<and> get_partition_cols [''a'', '''', ''b''] = Some [''a'', ''b'']
   \<and> get_partition_cols [''a'', ''b''] = Some [''a'', ''b'']"
  using get_partition_cols_cases [of "[]"] get_partition_cols_cases [of "['''']"]
    get_partition_cols_cases [of "[''  '']"]
    get_partition_cols_cases [of "[''a'', '''', ''b'']"]
    get_partition_cols_cases [of "[''a'', ''b'']"]
  by (simp add: isspace_def)

text \<open>
  In a list of two or more entries only the empty strings are dropped: an entry of
  whitespace stays.
\<close>

lemma get_partition_cols_keeps_whitespace_in_longer_list:
  "get_partition_cols [''a'', ''  '', ''b''] = Some [''a'', ''  '', ''b'']"
  by (simp add: get_partition_cols_def)

subsection \<open>Additional columns\<close>

text \<open>
  Claim C10. The dictionary \<open>populate_additional_df_cols\<close> returns contains every listed
  column; a key that was present keeps its value, whether listed or not; a listed column
  that was missing is bound to \<^verbatim>\<open>None\<close>; and a key that is not listed is looked up as
  before (so nothing else is added).
\<close>

theorem populate_additional_df_cols_frame:
  "set additional_columns \<subseteq> set (dict_keys (populate_additional_df_cols d additional_columns))
   \<and> (\<forall>k \<in> set (dict_keys d).
         map_of (populate_additional_df_cols d additional_columns) k = map_of d k)
   \<and> (\<forall>c \<in> set additional_columns.
         c \<notin> set (dict_keys d) \<longrightarrow>
         map_of (populate_additional_df_cols d additional_columns) c = Some PyNone)
   \<and> (\<forall>k. k \<notin> set additional_columns \<longrightarrow>
         map_of (populate_additional_df_cols d additional_columns) k = map_of d k)"
  by (simp add: populate_additional_df_cols_map_of populate_additional_df_cols_keys)

theorem populate_additional_df_cols_frame_witness:
  "map_of (populate_additional_df_cols
             [(''dataFlowId'', PyStr ''100''), (''appendFlows'', PyStr ''[]'')]
             [''appendFlows'', ''appendFlowsSchemas'']) ''appendFlows'' = Some (PyStr ''[]'')
   \<and> map_of (populate_additional_df_cols
             [(''dataFlowId'', PyStr ''100''), (''appendFlows'', PyStr ''[]'')]
             [''appendFlows'', ''appendFlowsSchemas'']) ''appendFlowsSchemas'' = Some PyNone
   \<and> map_of (populate_additional_df_cols
             [(''dataFlowId'', PyStr ''100''), (''appendFlows'', PyStr ''[]'')]
             [''appendFlows'', ''appendFlowsSchemas'']) ''dataFlowId'' = Some (PyStr ''100'')
   \<and> map_of (populate_additional_df_cols
             [(''dataFlowId'', PyStr ''100''), (''appendFlows'', PyStr ''[]'')]
             [''appendFlows'', ''appendFlowsSchemas'']) ''sinks'' = None"
  using populate_additional_df_cols_frame
          [of "[''appendFlows'', ''appendFlowsSchemas'']"
              "[(''dataFlowId'', PyStr ''100''), (''appendFlows'', PyStr ''[]'')]"]
  by (simp add: dict_keys_def)

subsection \<open>Configuration check\<close>

lemma check_spark_dataflowpipeline_conf_params_ok_iff:
  "check_spark_dataflowpipeline_conf_params cf layer_arg = Inr () \<longleftrightarrow>
     (\<exists>layer. cf ''layer'' = Some layer
        \<and> cf (layer @ ''.dataflowspecTable'') \<noteq> None
        \<and> (cf (layer @ ''.group'') \<noteq> None \<or> cf (layer @ ''.dataflowIds'') \<noteq> None))"
  by (auto simp: check_spark_dataflowpipeline_conf_params_def split: option.splits)

text \<open>
  Claim C4, at the inputs where the message does not name the key to set. With no key set
  and \<open>layer_arg = ''bronze''\<close> the check reads the key \<open>layer\<close>, and its message asks for
  the key \<open>bronze\<close>; setting \<open>bronze\<close> as the message says leaves the same failure. With
  \<open>layer\<close> set to \<open>silver\<close> the check reads \<open>silver.dataflowspecTable\<close>, and its message
  asks for \<open>bronze.dataflowspecTable\<close>, which is set.
\<close>

theorem check_conf_params_layer_message:
  "check_spark_dataflowpipeline_conf_params Map.empty ''bronze'' =
     Inl (Exception (''parameter bronze is missing in spark.conf.'' @ newline @ spaces 17
                     @ ''Please set spark.conf.set(bronze,'silver') ''))
   \<and> check_spark_dataflowpipeline_conf_params [''bronze'' \<mapsto> ''silver''] ''bronze'' =
     Inl (Exception (''parameter bronze is missing in spark.conf.'' @ newline @ spaces 17
                     @ ''Please set spark.conf.set(bronze,'silver') ''))
   \<and> check_spark_dataflowpipeline_conf_params
        [''layer'' \<mapsto> ''silver'', ''bronze.dataflowspecTable'' \<mapsto> ''db.spec'',
         ''silver.group'' \<mapsto> ''A1''] ''bronze'' =
     Inl (Exception (''parameter bronze.dataflowspecTable is missing in sparkConf'' @ newline
                     @ spaces 16 @ ''Please set spark.conf.set('' @ apostrophe
                     @ ''bronze.dataflowspecTable'='database.dataflowSpecTableName')''))"
  by (simp add: check_spark_dataflowpipeline_conf_params_def)

subsection \<open>Command-line arguments\<close>

lemma check_cond_mandatory_arg_find:
  "set mandatory_args \<subseteq> fst ` set args \<Longrightarrow>
   check_cond_mandatory_arg args mandatory_args =
     (case find (\<lambda>mand_arg. map_of args mand_arg = Some None) mandatory_args of
        None \<Rightarrow> Inr ()
      | Some mand_arg \<Rightarrow> Inl (Exception (''Please provide '--'' @ mand_arg @ apostrophe)))"
proof (induction mandatory_args)
  case Nil
  then show ?case by simp
next
  case (Cons a as)
  then have "map_of args a \<noteq> None"
    by (simp add: map_of_eq_None_iff)
  with Cons show ?case
    by (auto split: option.splits)
qed

lemma vars_parse_args_declares:
  "set eventhub_mandatory_args \<union> set kafka_mandatory_args \<subseteq> fst ` set (vars_parse_args given)"
  by (simp add: vars_parse_args_def input_arg_names_def eventhub_mandatory_args_def
        kafka_mandatory_args_def)

text \<open>
  Claim C6. On a dictionary that has an entry for every conditional option (as the one
  argparse returns has), \<open>process_arguments\<close> with source \<open>eventhub\<close> raises the error
  naming the first of the seven event-hub options whose value is \<^verbatim>\<open>None\<close>, and returns
  the arguments when there is none; with source \<open>kafka\<close> it does the same over
  \<open>kafka_topic_name\<close> and \<open>kafka_broker\<close>.
\<close>

theorem process_arguments_conditional:
  assumes "set eventhub_mandatory_args \<union> set kafka_mandatory_args \<subseteq> fst ` set args"
  shows "(map_of args ''source'' = Some (Some ''eventhub'') \<longrightarrow>
            process_arguments args =
              (case find (\<lambda>mand_arg. map_of args mand_arg = Some None) eventhub_mandatory_args of
                 None \<Rightarrow> Inr args
               | Some mand_arg \<Rightarrow>
                   Inl (Exception (''Please provide '--'' @ mand_arg @ apostrophe))))
       \<and> (map_of args ''source'' = Some (Some ''kafka'') \<longrightarrow>
            process_arguments args =
              (case find (\<lambda>mand_arg. map_of args mand_arg = Some None) kafka_mandatory_args of
                 None \<Rightarrow> Inr args
               | Some mand_arg \<Rightarrow>
                   Inl (Exception (''Please provide '--'' @ mand_arg @ apostrophe))))"
proof -
  from assms have e: "set eventhub_mandatory_args \<subseteq> fst ` set args"
    and k: "set kafka_mandatory_args \<subseteq> fst ` set args"
    by auto
  show ?thesis
    by (simp add: process_arguments_def check_cond_mandatory_arg_find [OF e]
          check_cond_mandatory_arg_find [OF k] split: option.splits)
qed

text \<open>
  The specification's example: all seven event-hub options given, and the same command
  line without \<^verbatim>\<open>--eventhub_namespace\<close>.
\<close>

theorem process_arguments_conditional_witness:
  "set eventhub_mandatory_args \<union> set kafka_mandatory_args
      \<subseteq> fst ` set (vars_parse_args eventhub_given)
   \<and> process_arguments (vars_parse_args eventhub_given) = Inr (vars_parse_args eventhub_given)
   \<and> set eventhub_mandatory_args \<union> set kafka_mandatory_args
      \<subseteq> fst ` set (vars_parse_args (eventhub_given(''eventhub_namespace'' := None)))
   \<and> process_arguments (vars_parse_args (eventhub_given(''eventhub_namespace'' := None)))
       = Inl (Exception (''Please provide '--eventhub_namespace'' @ apostrophe))"
proof -
  have h1: "set eventhub_mandatory_args \<union> set kafka_mandatory_args
      \<subseteq> fst ` set (vars_parse_args eventhub_given)"
    by (rule vars_parse_args_declares)
  have h2: "set eventhub_mandatory_args \<union> set kafka_mandatory_args
      \<subseteq> fst ` set (vars_parse_args (eventhub_given(''eventhub_namespace'' := None)))"
    by (rule vars_parse_args_declares)
  have s1: "map_of (vars_parse_args eventhub_given) ''source'' = Some (Some ''eventhub'')"
    by (simp add: vars_parse_args_def input_arg_names_def eventhub_given_def)
  have s2: "map_of (vars_parse_args (eventhub_given(''eventhub_namespace'' := None))) ''source''
              = Some (Some ''eventhub'')"
    by (simp add: vars_parse_args_def input_arg_names_def eventhub_given_def)
  have f1: "find (\<lambda>mand_arg. map_of (vars_parse_args eventhub_given) mand_arg = Some None)
              eventhub_mandatory_args = None"
    by (simp add: vars_parse_args_def input_arg_names_def eventhub_given_def
          eventhub_mandatory_args_def)
  have f2: "find (\<lambda>mand_arg.
                   map_of (vars_parse_args (eventhub_given(''eventhub_namespace'' := None)))
                     mand_arg = Some None)
              eventhub_mandatory_args = Some ''eventhub_namespace''"
    by (simp add: vars_parse_args_def input_arg_names_def eventhub_given_def
          eventhub_mandatory_args_def)
  show ?thesis
    using process_arguments_conditional [OF h1] process_arguments_conditional [OF h2] h1 h2
    by (simp add: s1 s2 f1 f2)
qed

subsection \<open>The run operation\<close>

text \<open>
  Claim C7. Whatever the operations do, \<open>run\<close> never returns normally and starts none of
  pipeline creation, job launch, result download and cleanup: its trace holds only the
  three initialisation steps. When the first two steps return, the upload is started and
  \<open>run\<close> ends with the upload's exception if it raised and with \<^verbatim>\<open>SystemExit\<close> otherwise.
\<close>

theorem run_stops_after_init:
  "fst (run raises []) \<noteq> Inr ()
   \<and> set (snd (run raises []))
       \<subseteq> {initialize_uc_resources, generate_onboarding_file, upload_files}
   \<and> (raises initialize_uc_resources = None \<and> raises generate_onboarding_file = None \<longrightarrow>
         run raises [] =
           (Inl (case raises upload_files of None \<Rightarrow> SystemExit | Some e \<Rightarrow> e),
            [initialize_uc_resources, generate_onboarding_file, upload_files]))"
  by (simp add: run_def init_dltmeta_runner_conf_def and_then_def call_def exit_process_def
        split: option.splits)

theorem run_stops_after_init_witness:
  "run (\<lambda>op. None) [] =
     (Inl SystemExit, [initialize_uc_resources, generate_onboarding_file, upload_files])
   \<and> run (\<lambda>op. if op = upload_files then Some (Exception ''upload failed'') else None) [] =
     (Inl (Exception ''upload failed''),
      [initialize_uc_resources, generate_onboarding_file, upload_files])"
  using run_stops_after_init [of "\<lambda>op. None"]
    run_stops_after_init
      [of "\<lambda>op. if op = upload_files then Some (Exception ''upload failed'') else None"]
  by simp

subsection \<open>Uploading the configuration tree\<close>

lemma upload_each_eq:
  "upload_each uc_volume_path root files (seen, ups) =
     (if files = [] then seen else Some (last files),
      ups @ map (ws_files_upload uc_volume_path root) files)"
  by (induction files arbitrary: seen ups) auto

text \<open>
  Claim C8. For a directory of the configuration walk the test is made once, on the file
  name most recently bound by a loop: when it ends in \<open>json\<close> every file of the directory
  is uploaded, whatever its name, and when it does not, none is. For the first directory
  that name is the last file of the resources walk.
\<close>

theorem upload_conf_checks_last_seen_file:
  "upload_conf uc_volume_path ((root, dirs, files) # walk) (Some last_file, uploads) =
     (if endswith last_file ''json''
      then upload_conf uc_volume_path walk
             (Some (last (last_file # files)),
              uploads @ map (ws_files_upload uc_volume_path root) files)
      else upload_conf uc_volume_path walk (Some last_file, uploads))
   \<and> (fst (upload_resources uc_volume_path resources_walk (None, [])) = Some last_file \<longrightarrow>
        upload_files_to_databricks uc_volume_path resources_walk [(root, dirs, files)] =
          Inr (snd (upload_resources uc_volume_path resources_walk (None, []))
               @ (if endswith last_file ''json''
                  then map (ws_files_upload uc_volume_path root) files else [])))"
  by (cases "upload_resources uc_volume_path resources_walk (None, [])")
     (auto simp: upload_each_eq upload_files_to_databricks_def)

text \<open>
  After a resources walk ending in \<open>a.json\<close> the template of the configuration directory
  is uploaded with the onboarding file; after one ending in \<open>x.csv\<close> neither is.
\<close>

theorem upload_conf_checks_last_seen_file_witness:
  "fst (upload_resources ''/Volumes/c/s/v/''
          [(''integration_tests/resources'', [], [''a.json''])] (None, [])) = Some ''a.json''
   \<and> upload_files_to_databricks ''/Volumes/c/s/v/''
         [(''integration_tests/resources'', [], [''a.json''])]
         [(''integration_tests/conf'', [], [''onboarding.template'', ''onboarding.json''])]
       = Inr [ws_files_upload ''/Volumes/c/s/v/'' ''integration_tests/resources'' ''a.json'',
              ws_files_upload ''/Volumes/c/s/v/'' ''integration_tests/conf''
                ''onboarding.template'',
              ws_files_upload ''/Volumes/c/s/v/'' ''integration_tests/conf''
                ''onboarding.json'']
   \<and> fst (upload_resources ''/Volumes/c/s/v/''
          [(''integration_tests/resources'', [], [''x.csv''])] (None, [])) = Some ''x.csv''
   \<and> upload_files_to_databricks ''/Volumes/c/s/v/''
         [(''integration_tests/resources'', [], [''x.csv''])]
         [(''integration_tests/conf'', [], [''onboarding.template'', ''onboarding.json''])]
       = Inr [ws_files_upload ''/Volumes/c/s/v/'' ''integration_tests/resources'' ''x.csv'']"
proof -
  have h1: "fst (upload_resources ''/Volumes/c/s/v/''
          [(''integration_tests/resources'', [], [''a.json''])] (None, [])) = Some ''a.json''"
    by simp
  have h2: "fst (upload_resources ''/Volumes/c/s/v/''
          [(''integration_tests/resources'', [], [''x.csv''])] (None, [])) = Some ''x.csv''"
    by simp
  have e1: "endswith ''a.json'' ''json''" and e2: "\<not> endswith ''x.csv'' ''json''"
    by (simp_all add: endswith_def)
  show ?thesis
    using upload_conf_checks_last_seen_file
            [of "''/Volumes/c/s/v/''" "''integration_tests/conf''" "[]"
                "[''onboarding.template'', ''onboarding.json'']" "[]" "''a.json''" "[]"
                "[(''integration_tests/resources'', [], [''a.json''])]"]
          upload_conf_checks_last_seen_file
            [of "''/Volumes/c/s/v/''" "''integration_tests/conf''" "[]"
                "[''onboarding.template'', ''onboarding.json'']" "[]" "''x.csv''" "[]"
                "[(''integration_tests/resources'', [], [''x.csv''])]"]
          h1 h2 e1 e2
    by simp
qed

subsection \<open>CDC rule set\<close>

lemma fill_missing_defaults_ok:
  "set ks \<subseteq> set (dict_keys defaults) \<Longrightarrow>
   \<exists>d'. fill_missing_defaults defaults d ks = Inr d'
        \<and> (\<forall>k. map_of d' k = (if k \<in> set ks then map_of defaults k else map_of d k))"
proof (induction ks arbitrary: d)
  case Nil
  then show ?case by simp
next
  case (Cons a ks)
  from Cons.prems obtain v where v: "map_of defaults a = Some v"
    by (auto simp: in_dict_keys_iff)
  from Cons.prems have "set ks \<subseteq> set (dict_keys defaults)"
    by simp
  from Cons.IH [OF this, of "AList.update a v d"] obtain d' where
    d': "fill_missing_defaults defaults (AList.update a v d) ks = Inr d'"
      "\<forall>k. map_of d' k
          = (if k \<in> set ks then map_of defaults k else map_of (AList.update a v d) k)"
    by blast
  show ?case
    using v d' by (auto simp: update_conv')
qed

lemma cdc_attributes_split:
  "set cdc_applychanges_api_attributes =
     set cdc_applychanges_api_mandatory_attributes
       \<union> set (dict_keys cdc_applychanges_api_attributes_defaults)"
  unfolding cdc_applychanges_api_mandatory_attributes_def
    cdc_applychanges_api_attributes_def cdc_applychanges_api_attributes_defaults_def
    dict_keys_def
  by (simp add: insert_commute)

text \<open>
  With the three mandatory keys present the outcome is determined: a key that is not an
  attribute is rejected by the constructor, and otherwise every field holds the payload's
  value or, without one, the default.
\<close>

lemma get_cdc_apply_changes_complete:
  assumes mand: "set cdc_applychanges_api_mandatory_attributes \<subseteq> set (dict_keys p)"
  shows "get_cdc_apply_changes (PyDict p) =
     (if set (dict_keys p) \<subseteq> set cdc_applychanges_api_attributes
      then Inr \<lparr>keys = cdc_field p ''keys'',
                sequence_by = cdc_field p ''sequence_by'',
                where_ = cdc_field p ''where'',
                ignore_null_updates = cdc_field p ''ignore_null_updates'',
                apply_as_deletes = cdc_field p ''apply_as_deletes'',
                apply_as_truncates = cdc_field p ''apply_as_truncates'',
                column_list = cdc_field p ''column_list'',
                except_column_list = cdc_field p ''except_column_list'',
                scd_type = cdc_field p ''scd_type'',
                track_history_column_list = cdc_field p ''track_history_column_list'',
                track_history_except_column_list =
                  cdc_field p ''track_history_except_column_list'',
                flow_name = cdc_field p ''flow_name'',
                once = cdc_field p ''once'',
                ignore_null_updates_column_list =
                  cdc_field p ''ignore_null_updates_column_list'',
                ignore_null_updates_except_column_list =
                  cdc_field p ''ignore_null_updates_except_column_list''\<rparr>
      else Inl (TypeError ''unexpected keyword argument''))"
proof -
  let ?attrs = cdc_applychanges_api_attributes
  let ?missing = "filter (\<lambda>a. a \<notin> set (dict_keys p)) ?attrs"
  let ?defaults = cdc_applychanges_api_attributes_defaults
  have missing_sub: "set ?missing \<subseteq> set (dict_keys ?defaults)"
    using mand cdc_attributes_split by auto
  from fill_missing_defaults_ok [OF missing_sub, of p]
  obtain d' where d': "fill_missing_defaults ?defaults p ?missing = Inr d'"
    and md': "\<And>k. map_of d' k = (if k \<in> set ?missing then map_of ?defaults k else map_of p k)"
    by blast
  let ?final = "populate_additional_df_cols d' additional_cdc_apply_changes_columns"
  have attr_in_d': "k \<in> set (dict_keys d')" if "k \<in> set ?attrs" for k
  proof (cases "k \<in> set (dict_keys p)")
    case True
    then have "k \<notin> set ?missing" by simp
    with True show ?thesis by (auto simp: in_dict_keys_iff md')
  next
    case False
    with that have m: "k \<in> set ?missing" by simp
    with missing_sub have "map_of ?defaults k \<noteq> None"
      unfolding in_dict_keys_iff [symmetric] by blast
    with m show ?thesis by (auto simp: in_dict_keys_iff md')
  qed
  have cols: "set additional_cdc_apply_changes_columns \<subseteq> set ?attrs"
    by (simp add: additional_cdc_apply_changes_columns_def cdc_applychanges_api_attributes_def)
  have mfinal: "map_of ?final k = map_of d' k" for k
    using attr_in_d' cols by (auto simp: populate_additional_df_cols_map_of)
  have keys_final: "set (dict_keys ?final) = set (dict_keys p) \<union> set ?attrs"
  proof (intro set_eqI iffI)
    fix k assume "k \<in> set (dict_keys ?final)"
    then have "map_of d' k \<noteq> None" by (simp add: in_dict_keys_iff mfinal)
    then show "k \<in> set (dict_keys p) \<union> set ?attrs"
      by (cases "k \<in> set ?missing") (auto simp: md' in_dict_keys_iff)
  next
    fix k assume "k \<in> set (dict_keys p) \<union> set ?attrs"
    then show "k \<in> set (dict_keys ?final)"
    proof
      assume kp: "k \<in> set (dict_keys p)"
      then have "k \<notin> set ?missing" by simp
      with kp show ?thesis by (auto simp: in_dict_keys_iff mfinal md')
    next
      assume "k \<in> set ?attrs"
      from attr_in_d' [OF this] show ?thesis by (simp add: in_dict_keys_iff mfinal)
    qed
  qed
  have fld: "the (map_of ?final k) = cdc_field p k" for k
  proof (cases "map_of p k")
    case (Some v)
    then have "k \<notin> set ?missing" by (simp add: in_dict_keys_iff)
    with Some show ?thesis by (auto simp: mfinal md' cdc_field_def)
  next
    case None
    show ?thesis
    proof (cases "k \<in> set ?attrs")
      case True
      with None have "k \<in> set ?missing" by (simp add: in_dict_keys_iff)
      with None show ?thesis by (auto simp: mfinal md' cdc_field_def map_add_def)
    next
      case False
      then have "k \<notin> set ?missing" by simp
      moreover from False have "map_of ?defaults k = None"
        using cdc_attributes_split by (auto simp: in_dict_keys_iff)
      ultimately show ?thesis using None by (auto simp: mfinal md' cdc_field_def map_add_def)
    qed
  qed
  have "get_cdc_apply_changes (PyDict p) = new_CDCApplyChanges ?final"
    using mand by (simp add: get_cdc_apply_changes_def Let_def d')
  also have "\<dots> = (if set (dict_keys p) \<subseteq> set ?attrs
      then Inr \<lparr>keys = the (map_of ?final ''keys''),
                sequence_by = the (map_of ?final ''sequence_by''),
                where_ = the (map_of ?final ''where''),
                ignore_null_updates = the (map_of ?final ''ignore_null_updates''),
                apply_as_deletes = the (map_of ?final ''apply_as_deletes''),
                apply_as_truncates = the (map_of ?final ''apply_as_truncates''),
                column_list = the (map_of ?final ''column_list''),
                except_column_list = the (map_of ?final ''except_column_list''),
                scd_type = the (map_of ?final ''scd_type''),
                track_history_column_list = the (map_of ?final ''track_history_column_list''),
                track_history_except_column_list =
                  the (map_of ?final ''track_history_except_column_list''),
                flow_name = the (map_of ?final ''flow_name''),
                once = the (map_of ?final ''once''),
                ignore_null_updates_column_list =
                  the (map_of ?final ''ignore_null_updates_column_list''),
                ignore_null_updates_except_column_list =
                  the (map_of ?final ''ignore_null_updates_except_column_list'')\<rparr>
      else Inl (TypeError ''unexpected keyword argument''))"
    unfolding new_CDCApplyChanges_def keys_final by auto
  finally show ?thesis
    unfolding fld .
qed

lemma cdc_field_present:
  "k \<in> set (dict_keys p) \<Longrightarrow> cdc_field p k = the (map_of p k)"
  by (auto simp: cdc_field_def in_dict_keys_iff map_add_def)

lemma cdc_field_absent:
  "k \<notin> set (dict_keys p) \<Longrightarrow>
   cdc_field p k = the (map_of cdc_applychanges_api_attributes_defaults k)"
  by (auto simp: cdc_field_def in_dict_keys_iff map_add_def)

text \<open>
  Claim C2. On a payload that is a JSON object, \<open>get_cdc_apply_changes\<close> raises the error
  that names the missing mandatory keys exactly when one of \<open>keys\<close>, \<open>sequence_by\<close>,
  \<open>scd_type\<close> is not a key of the payload, and the keys it names are the missing ones.
  On a payload whose keys are exactly those three it returns the record with the three
  values of the payload and the documented default in every other field.
\<close>

theorem get_cdc_apply_changes_mandatory:
  "((\<exists>ks. get_cdc_apply_changes (PyDict p) = Inl (MandatoryMissingKeys ks ''merge info''))
      \<longleftrightarrow> \<not> set cdc_applychanges_api_mandatory_attributes \<subseteq> set (dict_keys p))
   \<and> (\<not> set cdc_applychanges_api_mandatory_attributes \<subseteq> set (dict_keys p) \<longrightarrow>
         get_cdc_apply_changes (PyDict p) =
           Inl (MandatoryMissingKeys
                 (set cdc_applychanges_api_mandatory_attributes - set (dict_keys p))
                 ''merge info''))
   \<and> (set (dict_keys p) = set cdc_applychanges_api_mandatory_attributes \<longrightarrow>
         get_cdc_apply_changes (PyDict p) =
           Inr \<lparr>keys = the (map_of p ''keys''),
                sequence_by = the (map_of p ''sequence_by''),
                where_ = PyNone,
                ignore_null_updates = PyBool False,
                apply_as_deletes = PyNone,
                apply_as_truncates = PyNone,
                column_list = PyNone,
                except_column_list = PyNone,
                scd_type = the (map_of p ''scd_type''),
                track_history_column_list = PyNone,
                track_history_except_column_list = PyNone,
                flow_name = PyNone,
                once = PyBool False,
                ignore_null_updates_column_list = PyNone,
                ignore_null_updates_except_column_list = PyNone\<rparr>)"
proof (intro conjI impI)
  show "(\<exists>ks. get_cdc_apply_changes (PyDict p) = Inl (MandatoryMissingKeys ks ''merge info''))
      \<longleftrightarrow> \<not> set cdc_applychanges_api_mandatory_attributes \<subseteq> set (dict_keys p)"
  proof (cases "set cdc_applychanges_api_mandatory_attributes \<subseteq> set (dict_keys p)")
    case True
    then show ?thesis
      by (simp add: get_cdc_apply_changes_complete)
  next
    case False
    then show ?thesis
      by (auto simp: get_cdc_apply_changes_def Let_def)
  qed
next
  assume "\<not> set cdc_applychanges_api_mandatory_attributes \<subseteq> set (dict_keys p)"
  then show "get_cdc_apply_changes (PyDict p) =
           Inl (MandatoryMissingKeys
                 (set cdc_applychanges_api_mandatory_attributes - set (dict_keys p))
                 ''merge info'')"
    by (auto simp: get_cdc_apply_changes_def Let_def)
next
  assume exact: "set (dict_keys p) = set cdc_applychanges_api_mandatory_attributes"
  then have mand: "set cdc_applychanges_api_mandatory_attributes \<subseteq> set (dict_keys p)"
    by simp
  from exact have sub: "set (dict_keys p) \<subseteq> set cdc_applychanges_api_attributes"
    using cdc_attributes_split by simp
  have present: "k \<in> set (dict_keys p) \<longleftrightarrow> k \<in> {''keys'', ''sequence_by'', ''scd_type''}" for k
    by (simp add: exact cdc_applychanges_api_mandatory_attributes_def)
  show "get_cdc_apply_changes (PyDict p) =
           Inr \<lparr>keys = the (map_of p ''keys''),
                sequence_by = the (map_of p ''sequence_by''),
                where_ = PyNone,
                ignore_null_updates = PyBool False,
                apply_as_deletes = PyNone,
                apply_as_truncates = PyNone,
                column_list = PyNone,
                except_column_list = PyNone,
                scd_type = the (map_of p ''scd_type''),
                track_history_column_list = PyNone,
                track_history_except_column_list = PyNone,
                flow_name = PyNone,
                once = PyBool False,
                ignore_null_updates_column_list = PyNone,
                ignore_null_updates_except_column_list = PyNone\<rparr>"
    unfolding get_cdc_apply_changes_complete [OF mand]
    using sub
    by (simp add: cdc_field_present cdc_field_absent present
          cdc_applychanges_api_attributes_defaults_def)
qed

theorem get_cdc_apply_changes_mandatory_witness:
  "get_cdc_apply_changes
     (PyDict [(''keys'', PyList [PyStr ''id'']), (''sequence_by'', PyStr ''ts'')])
     = Inl (MandatoryMissingKeys {''scd_type''} ''merge info'')
   \<and> get_cdc_apply_changes
     (PyDict [(''keys'', PyList [PyStr ''id'']), (''sequence_by'', PyStr ''ts''),
              (''scd_type'', PyStr ''1'')])
     = Inr \<lparr>keys = PyList [PyStr ''id''],
            sequence_by = PyStr ''ts'',
            where_ = PyNone,
            ignore_null_updates = PyBool False,
            apply_as_deletes = PyNone,
            apply_as_truncates = PyNone,
            column_list = PyNone,
            except_column_list = PyNone,
            scd_type = PyStr ''1'',
            track_history_column_list = PyNone,
            track_history_except_column_list = PyNone,
            flow_name = PyNone,
            once = PyBool False,
            ignore_null_updates_column_list = PyNone,
            ignore_null_updates_except_column_list = PyNone\<rparr>"
  using get_cdc_apply_changes_mandatory
          [of "[(''keys'', PyList [PyStr ''id'']), (''sequence_by'', PyStr ''ts'')]"]
        get_cdc_apply_changes_mandatory
          [of "[(''keys'', PyList [PyStr ''id'']), (''sequence_by'', PyStr ''ts''),
                (''scd_type'', PyStr ''1'')]"]
  by (auto simp: dict_keys_def cdc_applychanges_api_mandatory_attributes_def)

subsection \<open>Sinks\<close>

lemma dict_keys_update:
  "set (dict_keys (AList.update k v d)) = insert k (set (dict_keys d))"
  by (auto simp: in_dict_keys_iff update_conv' split: if_splits)

lemma dict_keys_delete:
  "set (dict_keys (AList.delete k d)) = set (dict_keys d) - {k}"
  by (auto simp: in_dict_keys_iff delete_conv' split: if_splits)

lemma resolved_kafka_options_lookup:
  "map_of (resolved_kafka_options secret opts) ''kafka.bootstrap.servers'' = Some (PyStr secret)"
  by (simp add: resolved_kafka_options_def delete_conv' update_conv')

lemma resolved_kafka_options_keys:
  "set (dict_keys (resolved_kafka_options secret opts)) =
     insert ''kafka.bootstrap.servers'' (set (dict_keys opts))
       - {''kafka_bootstrap_servers_secrets_scope'', ''kafka_bootstrap_servers_secrets_key''}"
  by (auto simp: resolved_kafka_options_def dict_keys_delete dict_keys_update)

lemma get_sinks_entry_missing:
  "\<not> set sink_mandatory_attributes \<subseteq> set (dict_keys d) \<Longrightarrow>
   get_sinks_entry loads secrets_get (PyDict d) =
     Inl (MandatoryMissingKeys (set sink_mandatory_attributes - set (dict_keys d)) ''sink'')"
  by (auto simp: get_sinks_entry_def Let_def)

lemma get_sinks_entry_unsupported:
  "set sink_mandatory_attributes \<subseteq> set (dict_keys d) \<Longrightarrow>
   the (map_of d ''format'') \<notin> PyStr ` set supported_sink_formats \<Longrightarrow>
   get_sinks_entry loads secrets_get (PyDict d) =
     Inl (UnsupportedSinkFormat (the (map_of d ''format'')))"
  by (auto simp: get_sinks_entry_def Let_def)

lemma get_sinks_entry_kafka:
  assumes ks: "set (dict_keys d) = set sink_mandatory_attributes"
    and fmt: "map_of d ''format'' = Some (PyStr ''kafka'')"
    and opt: "map_of d ''options'' = Some (PyStr s)"
    and lo: "loads s = Some (PyDict opts)"
    and scope: "map_of opts ''kafka_bootstrap_servers_secrets_scope'' = Some kbs_secrets_scope"
    and key: "map_of opts ''kafka_bootstrap_servers_secrets_key'' = Some kbs_secrets_key"
    and sec: "secrets_get kbs_secrets_scope kbs_secrets_key = Some secret"
  shows "get_sinks_entry loads secrets_get (PyDict d) =
     Inr \<lparr>name = the (map_of d ''name''), format = PyStr ''kafka'',
          options = PyDict (resolved_kafka_options secret opts)\<rparr>"
proof -
  have in_opts: "''options'' \<in> set (dict_keys d)"
    by (simp add: ks sink_mandatory_attributes_def)
  have l: "load_sink_options loads d = Inr (AList.update ''options'' (PyDict opts) d)"
    using in_opts by (simp add: load_sink_options_def opt lo)
  let ?d1 = "AList.update ''options'' (PyDict opts) d"
  let ?d2 = "AList.update ''options'' (PyDict (resolved_kafka_options secret opts)) d"
  have r: "resolve_kafka_secrets secrets_get (PyStr ''kafka'') ?d1 = Inr ?d2"
    using scope key sec
    by (simp add: resolve_kafka_secrets_def dict_keys_update update_conv' in_dict_keys_iff)
  have k2: "set (dict_keys ?d2) = set sink_mandatory_attributes"
    using in_opts by (auto simp: dict_keys_update ks)
  have n: "new_DLTSink ?d2 = Inr \<lparr>name = the (map_of d ''name''), format = PyStr ''kafka'',
          options = PyDict (resolved_kafka_options secret opts)\<rparr>"
    unfolding new_DLTSink_def k2 by (simp add: update_conv' fmt)
  show ?thesis
    using ks fmt
    by (simp add: get_sinks_entry_def Let_def supported_sink_formats_def l r n)
qed

lemma get_sinks_loop_append:
  "get_sinks_loop loads secrets_get pre = Inr dlt_sinks \<Longrightarrow>
   get_sinks_loop loads secrets_get (pre @ json_sink # post) =
     (case get_sinks_entry loads secrets_get json_sink of
        Inl e \<Rightarrow> Inl e
      | Inr dlt_sink \<Rightarrow>
          (case get_sinks_loop loads secrets_get post of
             Inl e \<Rightarrow> Inl e
           | Inr rest \<Rightarrow> Inr (dlt_sinks @ dlt_sink # rest)))"
  by (induction pre arbitrary: dlt_sinks) (auto split: sum.splits)

lemma get_sinks_loop_raises:
  "json_sink \<in> set json_sinks \<Longrightarrow> isl (get_sinks_entry loads secrets_get json_sink) \<Longrightarrow>
   isl (get_sinks_loop loads secrets_get json_sinks)"
  by (induction json_sinks) (auto split: sum.splits)

text \<open>
  Claim C3. Let the entries before the entry \<open>d\<close> of a sink list be accepted. If \<open>d\<close>
  misses one of \<open>name\<close>, \<open>format\<close>, \<open>options\<close>, \<open>get_sinks\<close> raises the error naming the
  missing keys; if it has all three and its format is neither \<open>delta\<close> nor \<open>kafka\<close>,
  \<open>get_sinks\<close> raises the unsupported-format error with that format. Wherever such an
  entry stands in a list, \<open>get_sinks\<close> raises an error. If \<open>d\<close> is a \<open>kafka\<close> sink with
  exactly the three keys whose parsed options hold both secret references, and the secret
  store resolves them, then (the later entries accepted too) \<open>get_sinks\<close> returns at that
  position the record whose options bind \<open>kafka.bootstrap.servers\<close> to the secret and
  contain neither reference.
\<close>

theorem get_sinks_validation:
  assumes pre: "get_sinks_loop loads secrets_get pre = Inr dlt_sinks"
  shows "(\<not> set sink_mandatory_attributes \<subseteq> set (dict_keys d) \<longrightarrow>
            get_sinks loads secrets_get (PyList (pre @ PyDict d # post)) =
              Inl (MandatoryMissingKeys (set sink_mandatory_attributes - set (dict_keys d))
                    ''sink''))
       \<and> (set sink_mandatory_attributes \<subseteq> set (dict_keys d)
            \<and> the (map_of d ''format'') \<notin> PyStr ` set supported_sink_formats \<longrightarrow>
            get_sinks loads secrets_get (PyList (pre @ PyDict d # post)) =
              Inl (UnsupportedSinkFormat (the (map_of d ''format''))))
       \<and> (PyDict d \<in> set json_sinks
            \<and> (\<not> set sink_mandatory_attributes \<subseteq> set (dict_keys d)
                \<or> the (map_of d ''format'') \<notin> PyStr ` set supported_sink_formats) \<longrightarrow>
            isl (get_sinks loads secrets_get (PyList json_sinks)))
       \<and> (set (dict_keys d) = set sink_mandatory_attributes
            \<and> map_of d ''format'' = Some (PyStr ''kafka'')
            \<and> map_of d ''options'' = Some (PyStr s)
            \<and> loads s = Some (PyDict opts)
            \<and> map_of opts ''kafka_bootstrap_servers_secrets_scope'' = Some kbs_secrets_scope
            \<and> map_of opts ''kafka_bootstrap_servers_secrets_key'' = Some kbs_secrets_key
            \<and> secrets_get kbs_secrets_scope kbs_secrets_key = Some secret
            \<and> get_sinks_loop loads secrets_get post = Inr rest \<longrightarrow>
            get_sinks loads secrets_get (PyList (pre @ PyDict d # post)) =
              Inr (dlt_sinks
                   @ \<lparr>name = the (map_of d ''name''), format = PyStr ''kafka'',
                       options = PyDict (resolved_kafka_options secret opts)\<rparr>
                   # rest)
            \<and> map_of (resolved_kafka_options secret opts) ''kafka.bootstrap.servers''
                = Some (PyStr secret)
            \<and> ''kafka_bootstrap_servers_secrets_scope''
                \<notin> set (dict_keys (resolved_kafka_options secret opts))
            \<and> ''kafka_bootstrap_servers_secrets_key''
                \<notin> set (dict_keys (resolved_kafka_options secret opts)))"
proof (intro conjI impI)
  assume "\<not> set sink_mandatory_attributes \<subseteq> set (dict_keys d)"
  then show "get_sinks loads secrets_get (PyList (pre @ PyDict d # post)) =
              Inl (MandatoryMissingKeys (set sink_mandatory_attributes - set (dict_keys d))
                    ''sink'')"
    by (simp add: get_sinks_def get_sinks_loop_append [OF pre] get_sinks_entry_missing)
next
  assume "set sink_mandatory_attributes \<subseteq> set (dict_keys d)
            \<and> the (map_of d ''format'') \<notin> PyStr ` set supported_sink_formats"
  then show "get_sinks loads secrets_get (PyList (pre @ PyDict d # post)) =
              Inl (UnsupportedSinkFormat (the (map_of d ''format'')))"
    by (simp add: get_sinks_def get_sinks_loop_append [OF pre] get_sinks_entry_unsupported)
next
  assume a: "PyDict d \<in> set json_sinks
            \<and> (\<not> set sink_mandatory_attributes \<subseteq> set (dict_keys d)
                \<or> the (map_of d ''format'') \<notin> PyStr ` set supported_sink_formats)"
  have "isl (get_sinks_entry loads secrets_get (PyDict d))"
  proof (cases "set sink_mandatory_attributes \<subseteq> set (dict_keys d)")
    case True
    with a show ?thesis by (simp add: get_sinks_entry_unsupported)
  next
    case False
    then show ?thesis by (simp add: get_sinks_entry_missing)
  qed
  with a have "isl (get_sinks_loop loads secrets_get json_sinks)"
    by (blast intro: get_sinks_loop_raises)
  then show "isl (get_sinks loads secrets_get (PyList json_sinks))"
    by (simp add: get_sinks_def)
next
  assume a: "set (dict_keys d) = set sink_mandatory_attributes
            \<and> map_of d ''format'' = Some (PyStr ''kafka'')
            \<and> map_of d ''options'' = Some (PyStr s)
            \<and> loads s = Some (PyDict opts)
            \<and> map_of opts ''kafka_bootstrap_servers_secrets_scope'' = Some kbs_secrets_scope
            \<and> map_of opts ''kafka_bootstrap_servers_secrets_key'' = Some kbs_secrets_key
            \<and> secrets_get kbs_secrets_scope kbs_secrets_key = Some secret
            \<and> get_sinks_loop loads secrets_get post = Inr rest"
  then have a1: "set (dict_keys d) = set sink_mandatory_attributes"
    and a2: "map_of d ''format'' = Some (PyStr ''kafka'')"
    and a3: "map_of d ''options'' = Some (PyStr s)"
    and a4: "loads s = Some (PyDict opts)"
    and a5: "map_of opts ''kafka_bootstrap_servers_secrets_scope'' = Some kbs_secrets_scope"
    and a6: "map_of opts ''kafka_bootstrap_servers_secrets_key'' = Some kbs_secrets_key"
    and a7: "secrets_get kbs_secrets_scope kbs_secrets_key = Some secret"
    by simp_all
  note get_sinks_entry_kafka
         [where loads = loads and secrets_get = secrets_get, OF a1 a2 a3 a4 a5 a6 a7]
  with a show "get_sinks loads secrets_get (PyList (pre @ PyDict d # post)) =
              Inr (dlt_sinks
                   @ \<lparr>name = the (map_of d ''name''), format = PyStr ''kafka'',
                       options = PyDict (resolved_kafka_options secret opts)\<rparr>
                   # rest)"
    by (simp add: get_sinks_def get_sinks_loop_append [OF pre])
next
  show "map_of (resolved_kafka_options secret opts) ''kafka.bootstrap.servers''
                = Some (PyStr secret)"
    by (rule resolved_kafka_options_lookup)
next
  show "''kafka_bootstrap_servers_secrets_scope''
                \<notin> set (dict_keys (resolved_kafka_options secret opts))"
    by (simp add: resolved_kafka_options_keys)
next
  show "''kafka_bootstrap_servers_secrets_key''
                \<notin> set (dict_keys (resolved_kafka_options secret opts))"
    by (simp add: resolved_kafka_options_keys)
qed

text \<open>
  A list of a \<open>delta\<close> sink followed by: an entry without \<open>options\<close>; an \<open>avro\<close> sink;
  a \<open>kafka\<close> sink with secret references.
\<close>

lemma example_delta_sink:
  "get_sinks_loop example_loads example_secrets_get [PyDict delta_sink] =
     Inr [\<lparr>name = PyStr ''d'', format = PyStr ''delta'', options = PyDict []\<rparr>]"
  by (simp add: get_sinks_entry_def delta_sink_def dict_keys_def sink_mandatory_attributes_def
        supported_sink_formats_def load_sink_options_def example_loads_def
        kafka_options_text_def resolve_kafka_secrets_def new_DLTSink_def)

theorem get_sinks_validation_witness:
  "get_sinks_loop example_loads example_secrets_get [PyDict delta_sink] =
     Inr [\<lparr>name = PyStr ''d'', format = PyStr ''delta'', options = PyDict []\<rparr>]
   \<and> get_sinks example_loads example_secrets_get
        (PyList [PyDict delta_sink, PyDict [(''name'', PyStr ''n''), (''format'', PyStr ''kafka'')]])
       = Inl (MandatoryMissingKeys {''options''} ''sink'')
   \<and> get_sinks example_loads example_secrets_get (PyList [PyDict delta_sink, PyDict avro_sink])
       = Inl (UnsupportedSinkFormat (PyStr ''avro''))
   \<and> get_sinks example_loads example_secrets_get (PyList [PyDict delta_sink, PyDict kafka_sink])
       = Inr [\<lparr>name = PyStr ''d'', format = PyStr ''delta'', options = PyDict []\<rparr>,
              \<lparr>name = PyStr ''k'', format = PyStr ''kafka'',
                options = PyDict [(''topic'', PyStr ''t''),
                                  (''kafka.bootstrap.servers'', PyStr ''broker:9092'')]\<rparr>]"
proof -
  note h = example_delta_sink
  have missing: "get_sinks example_loads example_secrets_get
        (PyList [PyDict delta_sink, PyDict [(''name'', PyStr ''n''), (''format'', PyStr ''kafka'')]])
       = Inl (MandatoryMissingKeys {''options''} ''sink'')"
    using get_sinks_validation
            [OF h, of "[(''name'', PyStr ''n''), (''format'', PyStr ''kafka'')]" "[]"]
    by (auto simp: dict_keys_def sink_mandatory_attributes_def)
  have avro: "get_sinks example_loads example_secrets_get
        (PyList [PyDict delta_sink, PyDict avro_sink])
       = Inl (UnsupportedSinkFormat (PyStr ''avro''))"
    using get_sinks_validation [OF h, of avro_sink "[]"]
    by (auto simp: dict_keys_def sink_mandatory_attributes_def avro_sink_def
          supported_sink_formats_def)
  have kafka: "get_sinks example_loads example_secrets_get
        (PyList [PyDict delta_sink, PyDict kafka_sink])
       = Inr [\<lparr>name = PyStr ''d'', format = PyStr ''delta'', options = PyDict []\<rparr>,
              \<lparr>name = PyStr ''k'', format = PyStr ''kafka'',
                options = PyDict [(''topic'', PyStr ''t''),
                                  (''kafka.bootstrap.servers'', PyStr ''broker:9092'')]\<rparr>]"
    using get_sinks_validation
            [OF h, of kafka_sink "[]" "[]"
               kafka_options_text
               "[(''topic'', PyStr ''t''),
                 (''kafka_bootstrap_servers_secrets_scope'', PyStr ''sc''),
                 (''kafka_bootstrap_servers_secrets_key'', PyStr ''k'')]"
               "PyStr ''sc''" "PyStr ''k''" "''broker:9092''" "[]"]
    by (simp add: dict_keys_def sink_mandatory_attributes_def kafka_sink_def
          example_loads_def example_secrets_get_def resolved_kafka_options_def insert_commute)
  from h missing avro kafka show ?thesis by simp
qed

subsection \<open>Latest version and filtering\<close>

lemma filter_zip_upt_later:
  "filter (\<lambda>(r, row_num). row_num = i) (zip xs [Suc i..<j]) = []"
proof -
  have "n \<noteq> i" if "(r, n) \<in> set (zip xs [Suc i..<j])" for r n
  proof -
    from that have "n \<in> set [Suc i..<j]"
      by (rule set_zip_rightD)
    then have "Suc i \<le> n"
      by (simp only: set_upt atLeastLessThan_iff)
    then show ?thesis by simp
  qed
  then show ?thesis
    unfolding filter_empty_conv by blast
qed

lemma row_number_first:
  "map fst (filter (\<lambda>(r, row_num). row_num = 1) (row_number part)) = take 1 part"
proof (cases part)
  case Nil
  then show ?thesis by (simp add: row_number_def)
next
  case (Cons x xs)
  have "[1..<Suc (length (x # xs))] = 1 # [Suc 1..<Suc (length (x # xs))]"
    by (rule upt_conv_Cons) simp
  then have "row_number (x # xs) = (x, 1) # zip xs [Suc 1..<Suc (length (x # xs))]"
    unfolding row_number_def by (simp only: zip_Cons_Cons)
  then show ?thesis
    unfolding Cons by (simp only: filter.simps filter_zip_upt_later) simp
qed

lemma latest_version_take:
  "latest_version df = concat (map (\<lambda>part. take 1 (orderBy_version_desc part)) (partitionBy df))"
  unfolding latest_version_def filter_concat map_concat map_map comp_def row_number_first ..

lemma sorted_map_last:
  "sorted (map f xs) \<Longrightarrow> x \<in> set xs \<Longrightarrow> f x \<le> f (last xs)"
  by (induction xs) (auto split: if_splits)

lemma orderBy_version_desc_first:
  "part \<noteq> [] \<Longrightarrow> take 1 (orderBy_version_desc part) = [newest part]"
  by (cases "sort_key version (rev part)" rule: rev_cases)
     (auto simp: orderBy_version_desc_def newest_def dest: arg_cong [where f = length])

lemma newest_in: "part \<noteq> [] \<Longrightarrow> newest part \<in> set part"
proof -
  assume "part \<noteq> []"
  then have "sort_key version (rev part) \<noteq> []"
    by (auto dest: arg_cong [where f = length])
  then have "last (sort_key version (rev part)) \<in> set (sort_key version (rev part))"
    by (rule last_in_set)
  then show ?thesis by (simp add: newest_def)
qed

lemma newest_max: "r \<in> set part \<Longrightarrow> version r \<le> version (newest part)"
  unfolding newest_def by (rule sorted_map_last) simp_all

lemma latest_version_newest:
  "latest_version df =
     map (\<lambda>k. newest (filter (\<lambda>r. flow_key r = k) df)) (remdups (map flow_key df))"
proof -
  have "take 1 (orderBy_version_desc (filter (\<lambda>r. flow_key r = k) df))
          = [newest (filter (\<lambda>r. flow_key r = k) df)]"
    if "k \<in> set (remdups (map flow_key df))" for k
  proof -
    from that have "filter (\<lambda>r. flow_key r = k) df \<noteq> []"
      by (auto simp: filter_empty_conv)
    then show ?thesis by (rule orderBy_version_desc_first)
  qed
  then have "map (\<lambda>part. take 1 (orderBy_version_desc part)) (partitionBy df)
               = map (\<lambda>k. [newest (filter (\<lambda>r. flow_key r = k) df)]) (remdups (map flow_key df))"
    by (simp add: partitionBy_def comp_def)
  then show ?thesis
    by (simp add: latest_version_take concat_map_singleton)
qed

lemma newest_partition:
  assumes "k \<in> flow_key ` set df"
  shows "newest (filter (\<lambda>r. flow_key r = k) df) \<in> set df"
    and "flow_key (newest (filter (\<lambda>r. flow_key r = k) df)) = k"
    and "r \<in> set df \<Longrightarrow> flow_key r = k \<Longrightarrow>
           version r \<le> version (newest (filter (\<lambda>r. flow_key r = k) df))"
proof -
  from assms have ne: "filter (\<lambda>r. flow_key r = k) df \<noteq> []"
    by (auto simp: filter_empty_conv)
  from newest_in [OF ne]
  show "newest (filter (\<lambda>r. flow_key r = k) df) \<in> set df"
    and "flow_key (newest (filter (\<lambda>r. flow_key r = k) df)) = k"
    by simp_all
  show "version r \<le> version (newest (filter (\<lambda>r. flow_key r = k) df))"
    if "r \<in> set df" "flow_key r = k"
    using that by (intro newest_max) simp
qed

lemma latest_version_keys:
  "map flow_key (latest_version df) = remdups (map flow_key df)"
proof -
  have "map (\<lambda>k. flow_key (newest (filter (\<lambda>r. flow_key r = k) df))) (remdups (map flow_key df))
          = map (\<lambda>k. k) (remdups (map flow_key df))"
    by (rule map_cong) (auto simp: newest_partition(2))
  then show ?thesis
    by (simp add: latest_version_newest comp_def)
qed

lemma latest_version_subset:
  "set (latest_version df)
     \<subseteq> {r \<in> set df. \<forall>r' \<in> set df. flow_key r' = flow_key r \<longrightarrow> version r' \<le> version r}"
  by (auto simp: latest_version_newest newest_partition)

lemma latest_version_set:
  assumes "distinct (map (\<lambda>r. (flow_key r, version r)) df)"
  shows "set (latest_version df)
     = {r \<in> set df. \<forall>r' \<in> set df. flow_key r' = flow_key r \<longrightarrow> version r' \<le> version r}"
proof (intro equalityI latest_version_subset subsetI)
  fix r
  assume "r \<in> {r \<in> set df. \<forall>r' \<in> set df. flow_key r' = flow_key r \<longrightarrow> version r' \<le> version r}"
  then have r: "r \<in> set df"
    and mx: "\<And>r'. r' \<in> set df \<Longrightarrow> flow_key r' = flow_key r \<Longrightarrow> version r' \<le> version r"
    by auto
  let ?n = "newest (filter (\<lambda>r'. flow_key r' = flow_key r) df)"
  from r have k: "flow_key r \<in> flow_key ` set df" by simp
  note n = newest_partition [OF k]
  from mx [OF n(1) n(2)] n(3) [OF r refl] have "version ?n = version r"
    by simp
  with n(2) have "(flow_key ?n, version ?n) = (flow_key r, version r)"
    by simp
  moreover from assms have "inj_on (\<lambda>r. (flow_key r, version r)) (set df)"
    by (simp add: distinct_map)
  ultimately have "?n = r"
    using n(1) r by (auto dest: inj_onD)
  with k show "r \<in> set (latest_version df)"
    by (force simp: latest_version_newest)
qed

lemma where_group_or_ids_filter:
  "where_group_or_ids spark group_val dataflow_ids df = Inr selected \<Longrightarrow>
   \<exists>condition. selected = filter condition df"
  by (auto simp: where_group_or_ids_def split: if_splits option.splits
           intro: exI [of _ "\<lambda>r. True"])

lemma get_dataflow_spec_steps:
  "load_dataflow_spec_df spark layer dataflow_spec_df = Inr df \<Longrightarrow>
   get_dataflow_spec spark layer dataflow_spec_df group_arg dataflow_ids_arg =
     (case where_group_or_ids spark (effective_group spark layer group_arg)
             (effective_dataflow_ids spark layer dataflow_ids_arg) df of
        Inl e \<Rightarrow> Inl e
      | Inr selected \<Rightarrow> Inr (latest_version selected))"
  by (simp add: get_dataflow_spec_def Let_def)

text \<open>
  Claim C1. Let the table load and the group or id filter select the rows \<open>selected\<close>, and
  let no two rows of the table agree on \<open>(dataFlowGroup, dataFlowId, version)\<close>. Then
  \<open>get_dataflow_spec\<close> returns rows; they hold exactly one row for each pair
  \<open>(dataFlowGroup, dataFlowId)\<close> that occurs among the selected rows; and they are exactly
  the selected rows whose version is the greatest of their pair.
\<close>

theorem get_dataflow_spec_latest_version:
  assumes load: "load_dataflow_spec_df spark layer dataflow_spec_df = Inr df"
    and sel: "where_group_or_ids spark (effective_group spark layer group_arg)
                (effective_dataflow_ids spark layer dataflow_ids_arg) df = Inr selected"
    and versions: "distinct (map (\<lambda>r. (flow_key r, version r)) df)"
  shows "\<exists>rows. get_dataflow_spec spark layer dataflow_spec_df group_arg dataflow_ids_arg
                  = Inr rows
           \<and> map flow_key rows = remdups (map flow_key selected)
           \<and> set rows = {r \<in> set selected.
                           \<forall>r' \<in> set selected. flow_key r' = flow_key r
                              \<longrightarrow> version r' \<le> version r}"
proof -
  from where_group_or_ids_filter [OF sel] obtain condition
    where "selected = filter condition df" by blast
  with versions have "distinct (map (\<lambda>r. (flow_key r, version r)) selected)"
    by (simp add: distinct_map_filter)
  then have "set (latest_version selected) = {r \<in> set selected.
                 \<forall>r' \<in> set selected. flow_key r' = flow_key r \<longrightarrow> version r' \<le> version r}"
    by (rule latest_version_set)
  moreover have "get_dataflow_spec spark layer dataflow_spec_df group_arg dataflow_ids_arg
                  = Inr (latest_version selected)"
    by (simp add: get_dataflow_spec_steps [OF load] sel)
  ultimately show ?thesis
    using latest_version_keys [of selected] by blast
qed

lemma example_load:
  "load_dataflow_spec_df example_spark ''bronze'' None
     = Inr [flow_v2, flow_v3, other_flow, flow_v1]"
  by (simp add: load_dataflow_spec_df_def example_spark_def)

lemma example_where:
  "where_group_or_ids example_spark (effective_group example_spark ''bronze'' None)
     (effective_dataflow_ids example_spark ''bronze'' None)
     [flow_v2, flow_v3, other_flow, flow_v1] = Inr [flow_v2, flow_v3, flow_v1]"
  by (simp add: where_group_or_ids_def effective_group_def effective_dataflow_ids_def
        truthy_def example_spark_def flow_v1_def flow_v2_def flow_v3_def other_flow_def)

lemma example_distinct:
  "distinct (map (\<lambda>r. (flow_key r, version r)) [flow_v2, flow_v3, other_flow, flow_v1])"
  by (simp add: flow_key_def flow_v1_def flow_v2_def flow_v3_def other_flow_def)

text \<open>
  The specification's example: of the versions 1, 2, 3 of one flow only the row of
  version 3 is returned.
\<close>

theorem get_dataflow_spec_latest_version_witness:
  "load_dataflow_spec_df example_spark ''bronze'' None
     = Inr [flow_v2, flow_v3, other_flow, flow_v1]
   \<and> where_group_or_ids example_spark (effective_group example_spark ''bronze'' None)
       (effective_dataflow_ids example_spark ''bronze'' None)
       [flow_v2, flow_v3, other_flow, flow_v1] = Inr [flow_v2, flow_v3, flow_v1]
   \<and> distinct (map (\<lambda>r. (flow_key r, version r)) [flow_v2, flow_v3, other_flow, flow_v1])
   \<and> get_dataflow_spec example_spark ''bronze'' None None None = Inr [flow_v3]"
proof -
  from get_dataflow_spec_latest_version [OF example_load example_where example_distinct]
  obtain rows where rows: "get_dataflow_spec example_spark ''bronze'' None None None = Inr rows"
    and ks: "map flow_key rows = remdups (map flow_key [flow_v2, flow_v3, flow_v1])"
    and st: "set rows = {r \<in> set [flow_v2, flow_v3, flow_v1].
               \<forall>r' \<in> set [flow_v2, flow_v3, flow_v1]. flow_key r' = flow_key r
                  \<longrightarrow> version r' \<le> version r}"
    by blast
  from ks have "length rows = 1"
    by (auto simp: flow_key_def flow_v1_def flow_v2_def flow_v3_def
             dest: arg_cong [where f = length])
  then obtain r where r: "rows = [r]"
    by (cases rows) auto
  have "flow_v3 \<in> set rows"
    unfolding st by (simp add: flow_key_def flow_v1_def flow_v2_def flow_v3_def)
  with r have "rows = [flow_v3]" by simp
  with rows show ?thesis
    using example_load example_where example_distinct by simp
qed

text \<open>
  Claim C9. The group in effect is the argument when it is truthy and the configured
  \<open><layer>.group\<close> otherwise, and likewise the id list. When the group in effect is
  truthy, the rows are filtered by \<open>dataFlowGroup\<close> alone, whatever the id list is. The
  condition \<open>dataFlowId in (...)\<close> is used only when there is no truthy group and the id
  list is truthy.
\<close>

theorem get_dataflow_spec_group_before_ids:
  assumes load: "load_dataflow_spec_df spark layer dataflow_spec_df = Inr df"
  shows "(truthy (effective_group spark layer group_arg) \<longrightarrow>
            get_dataflow_spec spark layer dataflow_spec_df group_arg dataflow_ids_arg =
              Inr (latest_version
                    (filter (\<lambda>r. dataFlowGroup r = the (effective_group spark layer group_arg))
                       df)))
       \<and> (\<not> truthy (effective_group spark layer group_arg)
            \<and> truthy (effective_dataflow_ids spark layer dataflow_ids_arg) \<longrightarrow>
            get_dataflow_spec spark layer dataflow_spec_df group_arg dataflow_ids_arg =
              (case sql_expr spark
                      (''dataFlowId in (''
                       @ the (effective_dataflow_ids spark layer dataflow_ids_arg) @ '')'') of
                 None \<Rightarrow>
                   Inl (ParseException
                         (''dataFlowId in (''
                          @ the (effective_dataflow_ids spark layer dataflow_ids_arg) @ '')''))
               | Some condition \<Rightarrow> Inr (latest_version (filter condition df))))
       \<and> effective_group spark layer group_arg =
            (if truthy group_arg then group_arg else conf spark (layer @ ''.group''))
       \<and> effective_dataflow_ids spark layer dataflow_ids_arg =
            (if truthy dataflow_ids_arg then dataflow_ids_arg
             else conf spark (layer @ ''.dataflowIds''))"
  by (simp add: get_dataflow_spec_steps [OF load] where_group_or_ids_def effective_group_def
        effective_dataflow_ids_def split: option.splits)

lemma example_latest_version:
  "latest_version [flow_v2, flow_v3, flow_v1] = [flow_v3]"
  "latest_version [other_flow] = [other_flow]"
  by (simp_all add: latest_version_newest newest_def flow_key_def
        flow_v1_def flow_v2_def flow_v3_def other_flow_def)

text \<open>
  With the group \<open>G\<close> and the id list \<open>'F2'\<close> both configured, the rows of group \<open>G\<close>
  are selected although none of them has the id \<open>F2\<close>; without the group, the row with
  that id is.
\<close>

lemma example_load_without_group:
  "load_dataflow_spec_df (example_spark\<lparr>conf := (conf example_spark)(''bronze.group'' := None)\<rparr>)
     ''bronze'' None = Inr [flow_v2, flow_v3, other_flow, flow_v1]"
  by (simp add: load_dataflow_spec_df_def example_spark_def)

theorem get_dataflow_spec_group_before_ids_witness:
  "load_dataflow_spec_df example_spark ''bronze'' None
     = Inr [flow_v2, flow_v3, other_flow, flow_v1]
   \<and> truthy (effective_group example_spark ''bronze'' None)
   \<and> truthy (effective_dataflow_ids example_spark ''bronze'' None)
   \<and> get_dataflow_spec example_spark ''bronze'' None None None =
       Inr [flow_v3]
   \<and> \<not> truthy (effective_group
                 (example_spark\<lparr>conf := (conf example_spark)(''bronze.group'' := None)\<rparr>)
                 ''bronze'' None)
   \<and> get_dataflow_spec
       (example_spark\<lparr>conf := (conf example_spark)(''bronze.group'' := None)\<rparr>)
       ''bronze'' None None None =
       Inr [other_flow]"
proof -
  have g: "truthy (effective_group example_spark ''bronze'' None)"
    and i: "truthy (effective_dataflow_ids example_spark ''bronze'' None)"
    by (simp_all add: effective_group_def effective_dataflow_ids_def truthy_def
          example_spark_def)
  have ng: "\<not> truthy (effective_group
                 (example_spark\<lparr>conf := (conf example_spark)(''bronze.group'' := None)\<rparr>)
                 ''bronze'' None)"
    and ni: "truthy (effective_dataflow_ids
                 (example_spark\<lparr>conf := (conf example_spark)(''bronze.group'' := None)\<rparr>)
                 ''bronze'' None)"
    by (simp_all add: effective_group_def effective_dataflow_ids_def truthy_def
          example_spark_def)
  have "get_dataflow_spec example_spark ''bronze'' None None None =
       Inr (latest_version [flow_v2, flow_v3, flow_v1])"
    using get_dataflow_spec_group_before_ids [OF example_load, of None None] g
    by (simp add: effective_group_def truthy_def example_spark_def
          flow_v1_def flow_v2_def flow_v3_def other_flow_def)
  then have a: "get_dataflow_spec example_spark ''bronze'' None None None = Inr [flow_v3]"
    by (simp only: example_latest_version)
  have "get_dataflow_spec
       (example_spark\<lparr>conf := (conf example_spark)(''bronze.group'' := None)\<rparr>)
       ''bronze'' None None None =
       Inr (latest_version [other_flow])"
    using get_dataflow_spec_group_before_ids [OF example_load_without_group, of None None] ng ni
    by (simp add: effective_dataflow_ids_def effective_group_def truthy_def example_spark_def
          flow_v1_def flow_v2_def flow_v3_def other_flow_def)
  then have b: "get_dataflow_spec
       (example_spark\<lparr>conf := (conf example_spark)(''bronze.group'' := None)\<rparr>)
       ''bronze'' None None None = Inr [other_flow]"
    by (simp only: example_latest_version)
  from example_load g i a ng b show ?thesis by simp
qed

end
